theory Spec2Isabelle
  imports Complex_Main "HOL-Library.Log_Nat"
begin

section \<open>Monad wallet utilities: configuration\<close>

text \<open>
  The embedding follows the TypeScript module of wallet utilities function by function.
  A JavaScript number is modelled by the real number it denotes: the numbers of the
  program are the finite IEEE 754 doubles, and every arithmetic operation rounds its
  exact result to the nearest double. The infinities and overflow are outside the model;
  NaN occurs only as the result of \<^verbatim>\<open>parseInt\<close>, where it is \<open>None\<close>. Strings are
  lists of 8-bit characters; characters above 255 are outside the model.
\<close>

record platform_config =
  feePercentage :: real
  platformWallet :: string
  vatRefundPercentage :: real

definition PLATFORM_CONFIG :: platform_config where
  "PLATFORM_CONFIG =
     \<lparr>feePercentage = 0.5,
      platformWallet = ''0x742d35Cc6634C0532925a3b844Bc9e7595f0bEb'',
      vatRefundPercentage = 85\<rparr>"

record native_currency =
  name :: string
  symbol :: string
  decimals :: nat

record monad_config =
  rpcUrl :: string
  chainId :: nat
  chainIdHex :: string
  faucetUrl :: string
  explorers :: "string list"
  nativeCurrency :: native_currency

definition MONAD_CONFIG :: monad_config where
  "MONAD_CONFIG =
     \<lparr>rpcUrl = ''https://testnet-rpc.monad.xyz'',
      chainId = 10143,
      chainIdHex = ''0x279F'',
      faucetUrl = ''https://testnet.monad.xyz'',
      explorers = [''https://testnet.monadexplorer.com/'',
                   ''https://monad-testnet.socialscan.io/''],
      nativeCurrency = \<lparr>name = ''Monad'', symbol = ''MON'', decimals = 18\<rparr>\<rparr>"

section \<open>Double-precision arithmetic\<close>

text \<open>
  JavaScript computes with IEEE 754 binary64 numbers, rounding every operation to the
  nearest double, ties to the even significand. A finite double is a multiple of
  \<open>2\<^sup>-\<^sup>1\<^sup>0\<^sup>7\<^sup>4\<close> (the smallest subnormal) with at most 53 significant bits.
  A result whose magnitude would reach \<open>2\<^sup>1\<^sup>0\<^sup>2\<^sup>4\<close> is an infinity in JavaScript; such
  results are not modelled.
\<close>

text \<open>Rounding to the nearest integer, ties to even.\<close>

definition roundHalfEven :: "real \<Rightarrow> int" where
  "roundHalfEven r =
     (let f = \<lfloor>r\<rfloor>; d = r - of_int f in
      if d < 1/2 then f else if 1/2 < d then f + 1 else if even f then f else f + 1)"

text \<open>The spacing of the doubles around \<open>r\<close>, where \<open>r\<close> is measured in units of the
  smallest subnormal: 1 up to \<open>2\<^sup>5\<^sup>3\<close>, doubling with every further bit.\<close>

definition gridU :: "real \<Rightarrow> real" where
  "gridU r = 2 ^ nat (bitlen \<lfloor>\<bar>r\<bar>\<rfloor> - 53)"

definition roundUnits :: "real \<Rightarrow> real" where
  "roundUnits r = of_int (roundHalfEven (r / gridU r)) * gridU r"

definition doubleScale :: real where
  "doubleScale = 2 ^ 1074"

text \<open>The double nearest to a real number.\<close>

definition roundDouble :: "real \<Rightarrow> real" where
  "roundDouble x = roundUnits (x * doubleScale) / doubleScale"

definition isDouble :: "real \<Rightarrow> bool" where
  "isDouble x \<longleftrightarrow> roundDouble x = x \<and> \<bar>x\<bar> < 2 ^ 1024"

section \<open>Fee arithmetic\<close>

text \<open>calculatePlatformFee and calculateNetAmount, every operation rounded; the
  constants 0.5 and 100 are doubles.\<close>

definition calculatePlatformFee64 :: "real \<Rightarrow> real" where
  "calculatePlatformFee64 amt =
     roundDouble (roundDouble (amt * feePercentage PLATFORM_CONFIG) / 100)"

definition calculateNetAmount64 :: "real \<Rightarrow> real" where
  "calculateNetAmount64 amt =
     (let fee = calculatePlatformFee64 amt in roundDouble (amt - fee))"

section \<open>Address validation\<close>

definition isHexDigit :: "char \<Rightarrow> bool" where
  "isHexDigit c \<longleftrightarrow>
     (let n = of_char c :: nat in
      (48 \<le> n \<and> n \<le> 57) \<or> (65 \<le> n \<and> n \<le> 70) \<or> (97 \<le> n \<and> n \<le> 102))"

text \<open>\<^verbatim>\<open>/^0x[a-fA-F0-9]{40}$/.test(address)\<close>; the empty string is rejected by
  the guard before the test.\<close>

definition isValidAddress :: "string \<Rightarrow> bool" where
  "isValidAddress address \<longleftrightarrow>
     (if address = [] then False
      else take 2 address = ''0x'' \<and> length (drop 2 address) = 40
           \<and> list_all isHexDigit (drop 2 address))"

text \<open>\<^verbatim>\<open>/^0x0+[0-9a-f]$/i.test(recipient)\<close>: the flag \<^verbatim>\<open>i\<close> also lets the
  prefix be \<^verbatim>\<open>0X\<close>; after the prefix come one or more zeros and one final
  hexadecimal digit.\<close>

definition isPlaceholder :: "string \<Rightarrow> bool" where
  "isPlaceholder recipient \<longleftrightarrow>
     (take 2 recipient = ''0x'' \<or> take 2 recipient = ''0X'')
     \<and> 2 \<le> length (drop 2 recipient)
     \<and> list_all (\<lambda>c. c = CHR ''0'') (butlast (drop 2 recipient))
     \<and> isHexDigit (last (drop 2 recipient))"

definition TEST_ADDRESS :: string where
  "TEST_ADDRESS = ''0x70c573979F61710D3284120261B562e524ad3763''"

section \<open>The injected wallet provider\<close>

text \<open>
  A thrown value, which is also what a rejected promise is rejected with:
  \<^verbatim>\<open>undefined\<close>, \<^verbatim>\<open>null\<close>, or any other value. Of the other values the module
  reads whether it is an instance of \<^verbatim>\<open>Error\<close>, its \<^verbatim>\<open>code\<close> property when that
  is a number, and its \<^verbatim>\<open>message\<close>. Neither \<^verbatim>\<open>undefined\<close> nor \<^verbatim>\<open>null\<close> is
  an instance of \<^verbatim>\<open>Error\<close>.
\<close>

datatype thrown =
    Thrown (is_Error: bool) (err_code: "int option") (err_message: string)
  | ThrownUndefined
  | ThrownNull
  where
    "is_Error ThrownUndefined = False"
  | "is_Error ThrownNull = False"

definition Error :: "string \<Rightarrow> thrown" where
  "Error m = Thrown True None m"

text \<open>A \<^verbatim>\<open>TypeError\<close> is an \<^verbatim>\<open>Error\<close> without a \<^verbatim>\<open>code\<close>.\<close>

definition TypeError :: "string \<Rightarrow> thrown" where
  "TypeError m = Thrown True None m"

text \<open>
  The property read \<^verbatim>\<open>error.code\<close> on a caught value. On \<^verbatim>\<open>undefined\<close> and on
  \<^verbatim>\<open>null\<close> the read itself throws a \<^verbatim>\<open>TypeError\<close>; its message is the one of
  the V8 engine.
\<close>

definition readCode :: "thrown \<Rightarrow> thrown + int option" where
  "readCode v =
     (case v of
        Thrown isError code message \<Rightarrow> Inr code
      | ThrownUndefined \<Rightarrow>
          Inl (TypeError (''Cannot read properties of undefined (reading ''
                            @ [CHR 0x27] @ ''code'' @ [CHR 0x27] @ '')''))
      | ThrownNull \<Rightarrow>
          Inl (TypeError (''Cannot read properties of null (reading ''
                            @ [CHR 0x27] @ ''code'' @ [CHR 0x27] @ '')'')))"

record add_chain_params =
  p_chainId :: string
  p_chainName :: string
  p_nativeCurrency :: native_currency
  p_rpcUrls :: "string list"
  p_blockExplorerUrls :: "string list"

record tx_params =
  tx_from :: "string option"
  tx_to :: string
  tx_value :: string
  tx_gas :: string

datatype rpc_request =
    Eth_requestAccounts
  | Eth_accounts
  | Wallet_switchEthereumChain string
  | Wallet_addEthereumChain add_chain_params
  | Eth_getBalance string string
  | Eth_sendTransaction tx_params
  | Eth_getTransactionByHash string
  | Eth_getTransactionReceipt string

type_synonym history = "rpc_request list"

record tx_info =
  gasPrice :: "string option"

record receipt_info =
  status :: "string option"
  gasUsed :: "string option"

text \<open>
  What \<^verbatim>\<open>request({method, params})\<close> answers, one handler for each method the module
  issues, with the result shape the module reads. An answer may depend on every request
  issued before it (the history, oldest first); \<open>Inl\<close> is a rejected promise.
  \<open>None\<close> as a result is \<^verbatim>\<open>null\<close> or \<^verbatim>\<open>undefined\<close>.
\<close>

record rpc =
  on_requestAccounts :: "history \<Rightarrow> thrown + string list option"
  on_accounts :: "history \<Rightarrow> thrown + string list option"
  on_switchEthereumChain :: "history \<Rightarrow> string \<Rightarrow> thrown + unit"
  on_addEthereumChain :: "history \<Rightarrow> add_chain_params \<Rightarrow> thrown + unit"
  on_getBalance :: "history \<Rightarrow> string \<Rightarrow> string \<Rightarrow> thrown + string"
  on_sendTransaction :: "history \<Rightarrow> tx_params \<Rightarrow> thrown + string"
  on_getTransactionByHash :: "history \<Rightarrow> string \<Rightarrow> thrown + tx_info option"
  on_getTransactionReceipt :: "history \<Rightarrow> string \<Rightarrow> thrown + receipt_info option"

text \<open>A provider object: an identity, its \<^verbatim>\<open>isMetaMask\<close> flag, and its
  \<^verbatim>\<open>request\<close> function when \<^verbatim>\<open>typeof request === "function"\<close>.\<close>

record provider =
  ident :: nat
  isMetaMask :: bool
  request :: "rpc option"

record ethereum_object =
  self :: provider
  providers :: "provider option list option"

record solana_object =
  isPhantom :: bool

text \<open>The host environment: whether \<^verbatim>\<open>window\<close> exists, and \<^verbatim>\<open>window.ethereum\<close>
  and \<^verbatim>\<open>window.solana\<close> when they are defined.\<close>

record host =
  hasWindow :: bool
  ethereum :: "ethereum_object option"
  solana :: "solana_object option"

text \<open>The module state: the variable \<^verbatim>\<open>connectedAccount\<close>, the value stored under
  \<^verbatim>\<open>monad_connected_account\<close>, and the requests issued so far.\<close>

record world =
  connectedAccount :: "string option"
  localStorage :: "string option"
  log :: history

text \<open>Module load: in a browser the stored account, when there is one, becomes the
  connected account.\<close>

definition moduleLoad :: "host \<Rightarrow> string option \<Rightarrow> world" where
  "moduleLoad h stored =
     \<lparr>connectedAccount =
        (if hasWindow h
         then (case stored of None \<Rightarrow> None | Some s \<Rightarrow> (if s = [] then None else Some s))
         else None),
      localStorage = stored,
      log = []\<rparr>"

definition isWalletInstalled :: "host \<Rightarrow> bool" where
  "isWalletInstalled h \<longleftrightarrow>
     (let hasEthereum = hasWindow h \<and> ethereum h \<noteq> None in hasEthereum)"

definition getProvider :: "host \<Rightarrow> thrown + provider" where
  "getProvider h =
     (if \<not> hasWindow h then Inl (Error ''No Web3 provider found (server environment)'')
      else
        (let hasSolana = (case solana h of None \<Rightarrow> False | Some s \<Rightarrow> isPhantom s) in
         (case ethereum h of
            None \<Rightarrow>
              (if hasSolana
               then Inl (Error ''Detected Phantom (Solana) wallet but no EVM provider. Please install MetaMask or disable Phantom as the Default App Wallet and refresh.'')
               else Inl (Error ''No EVM-compatible wallet found. Please install MetaMask or another Web3 wallet that supports Ethereum RPC.''))
          | Some eth \<Rightarrow>
              (let fromProviders =
                 (case providers eth of
                    None \<Rightarrow> None
                  | Some ps \<Rightarrow>
                      (if 0 < length ps then
                         (case find (\<lambda>p. case p of None \<Rightarrow> False | Some q \<Rightarrow> isMetaMask q) ps of
                            Some (Some preferred) \<Rightarrow> Some preferred
                          | _ \<Rightarrow>
                              (case hd ps of
                                 Some first \<Rightarrow> (if request first \<noteq> None then Some first else None)
                               | None \<Rightarrow> None))
                       else None))
               in
               (case fromProviders of
                  Some p \<Rightarrow> Inr p
                | None \<Rightarrow>
                    (if isMetaMask (self eth) then Inr (self eth)
                     else if request (self eth) \<noteq> None then
                       (if hasSolana
                        then Inl (Error (''Multiple wallets detected and Phantom may be the Default App Wallet. Please set MetaMask as the handler or disable Phantom'' @ [CHR 0x27] @ ''s Default App Wallet in its settings, then refresh.''))
                        else Inr (self eth))
                     else Inl (Error ''No usable EVM provider found. Install MetaMask and try again.'')))))))"

text \<open>Calling \<^verbatim>\<open>ethereum.request\<close>: a provider without the function makes the call a
  \<^verbatim>\<open>TypeError\<close>; otherwise the request joins the history and the handler answers.\<close>

definition call ::
  "provider \<Rightarrow> rpc_request \<Rightarrow> (rpc \<Rightarrow> history \<Rightarrow> thrown + 'a) \<Rightarrow> world \<Rightarrow> (thrown + 'a) \<times> world" where
  "call p req handler w =
     (case request p of
        None \<Rightarrow> (Inl (TypeError ''ethereum.request is not a function''), w)
      | Some r \<Rightarrow> (handler r (log w), w\<lparr>log := log w @ [req]\<rparr>))"

section \<open>Number conversions\<close>

definition hexDigitChar :: "nat \<Rightarrow> char" where
  "hexDigitChar d = ''0123456789abcdef'' ! d"

text \<open>\<^verbatim>\<open>n.toString(16)\<close> for a non-negative integer: lower-case digits, no prefix.\<close>

fun toString16 :: "nat \<Rightarrow> string" where
  "toString16 n =
     (if n < 16 then [hexDigitChar n] else toString16 (n div 16) @ [hexDigitChar (n mod 16)])"

declare toString16.simps [simp del]

definition hexDigitValue :: "char \<Rightarrow> nat" where
  "hexDigitValue c =
     (let n = of_char c :: nat in
      if n \<le> 57 then n - 48 else if n \<le> 70 then n - 55 else n - 87)"

text \<open>The white space \<^verbatim>\<open>parseInt\<close> skips, among the characters up to 255: tab, line
  feed, vertical tab, form feed, carriage return, space and no-break space.\<close>

definition isWhiteSpace :: "char \<Rightarrow> bool" where
  "isWhiteSpace c \<longleftrightarrow>
     (let n = of_char c :: nat in n = 32 \<or> (9 \<le> n \<and> n \<le> 13) \<or> n = 160)"

text \<open>
  \<^verbatim>\<open>parseInt(s, 16)\<close>: leading white space is skipped, then an optional sign, then an
  optional \<^verbatim>\<open>0x\<close> or \<^verbatim>\<open>0X\<close>, then the longest run of hexadecimal digits; no
  digit gives \<^verbatim>\<open>NaN\<close>, which is \<open>None\<close>. The result is the double nearest to the
  integer the digits denote.
\<close>

definition parseInt16 :: "string \<Rightarrow> real option" where
  "parseInt16 s =
     (let s1 = dropWhile isWhiteSpace s;
          negative = (take 1 s1 = ''-'');
          s2 = (if take 1 s1 = ''-'' \<or> take 1 s1 = ''+'' then drop 1 s1 else s1);
          s3 = (if take 2 s2 = ''0x'' \<or> take 2 s2 = ''0X'' then drop 2 s2 else s2);
          digits = takeWhile isHexDigit s3;
          magnitude = foldl (\<lambda>acc c. 16 * acc + int (hexDigitValue c)) 0 digits
      in if digits = [] then None
         else Some (roundDouble (real_of_int (if negative then - magnitude else magnitude))))"

text \<open>\<^verbatim>\<open>parseInt(balanceHex, 16) / 1e18\<close>\<close>

definition balanceMON :: "string \<Rightarrow> real option" where
  "balanceMON balanceHex =
     map_option (\<lambda>n. roundDouble (n / 10 ^ 18)) (parseInt16 balanceHex)"

section \<open>Connection session\<close>

record connection =
  conn_address :: string
  conn_balance :: "real option"

definition monadChainParams :: add_chain_params where
  "monadChainParams =
     \<lparr>p_chainId = chainIdHex MONAD_CONFIG,
      p_chainName = ''Monad Testnet'',
      p_nativeCurrency = nativeCurrency MONAD_CONFIG,
      p_rpcUrls = [rpcUrl MONAD_CONFIG],
      p_blockExplorerUrls = [explorers MONAD_CONFIG ! 0]\<rparr>"

text \<open>
  The switch block that connectWallet and ensureMonadNetwork both contain: request the
  switch; when it is rejected, read the code of the rejection (a read that can throw);
  with code 4902 request the chain to be added (a rejection of that request is not
  caught); rethrow any other rejection.
\<close>

definition switchOrAddChain :: "provider \<Rightarrow> world \<Rightarrow> (thrown + unit) \<times> world" where
  "switchOrAddChain eth w =
     (case call eth (Wallet_switchEthereumChain (chainIdHex MONAD_CONFIG))
             (\<lambda>r past. on_switchEthereumChain r past (chainIdHex MONAD_CONFIG)) w of
        (Inr u, w1) \<Rightarrow> (Inr (), w1)
      | (Inl switchError, w1) \<Rightarrow>
          (case readCode switchError of
             Inl typeError \<Rightarrow> (Inl typeError, w1)
           | Inr code \<Rightarrow>
               (if code = Some 4902
                then
                  (case call eth (Wallet_addEthereumChain monadChainParams)
                          (\<lambda>r past. on_addEthereumChain r past monadChainParams) w1 of
                     (Inr u, w2) \<Rightarrow> (Inr (), w2)
                   | (Inl addError, w2) \<Rightarrow> (Inl addError, w2))
                else (Inl switchError, w1))))"



definition ensureMonadNetwork :: "host \<Rightarrow> world \<Rightarrow> (thrown + unit) \<times> world" where
  "ensureMonadNetwork h w =
     (if \<not> isWalletInstalled h then (Inr (), w)
      else
        (case getProvider h of
           Inl e \<Rightarrow> (Inl e, w)
         | Inr eth \<Rightarrow> switchOrAddChain eth w))"

definition disconnectWallet :: "world \<Rightarrow> world" where
  "disconnectWallet w = w\<lparr>connectedAccount := None, localStorage := None\<rparr>"

text \<open>reconnectWallet: every throw inside the try block becomes \<^verbatim>\<open>null\<close>.\<close>

definition reconnectWallet :: "host \<Rightarrow> world \<Rightarrow> connection option \<times> world" where
  "reconnectWallet h w =
     (if \<not> isWalletInstalled h then (None, w)
      else
        (case getProvider h of
           Inl e \<Rightarrow> (None, w)
         | Inr eth \<Rightarrow>
             (case call eth Eth_accounts on_accounts w of
                (Inl e, w1) \<Rightarrow> (None, w1)
              | (Inr accounts, w1) \<Rightarrow>
                  (case accounts of
                     None \<Rightarrow> (None, w1)
                   | Some [] \<Rightarrow> (None, w1)
                   | Some (account0 # others) \<Rightarrow>
                       (let w2 = w1\<lparr>connectedAccount := Some account0,
                                    localStorage := Some account0\<rparr> in
                        (case call eth (Eth_getBalance account0 ''latest'')
                                (\<lambda>r past. on_getBalance r past account0 ''latest'') w2 of
                           (Inl e, w3) \<Rightarrow> (None, w3)
                         | (Inr balanceHex, w3) \<Rightarrow>
                             (Some \<lparr>conn_address = account0, conn_balance = balanceMON balanceHex\<rparr>,
                              w3)))))))"

definition isWalletConnected :: "world \<Rightarrow> bool" where
  "isWalletConnected w \<longleftrightarrow> connectedAccount w \<noteq> None"

definition getConnectedAccount :: "world \<Rightarrow> string option" where
  "getConnectedAccount w = connectedAccount w"

section \<open>Transfers\<close>

record outcome =
  success :: bool
  txHash :: "string option"
  error :: "string option"

record payment_outcome = outcome +
  platformFee :: "real option"
  netAmount :: "real option"

record bulk_outcome = outcome +
  totalPlatformFee :: "real option"
  totalNetAmount :: "real option"
  failedTransactions :: "nat option"

record recipient =
  address :: string
  amount :: real

text \<open>\<^verbatim>\<open>error instanceof Error ? error.message : "Unknown error"\<close>\<close>

definition errorText :: "thrown \<Rightarrow> string" where
  "errorText e = (if is_Error e then err_message e else ''Unknown error'')"

text \<open>\<^verbatim>\<open>!connectedAccount\<close>: \<^verbatim>\<open>null\<close> and the empty string are falsy.\<close>

definition isFalsy :: "string option \<Rightarrow> bool" where
  "isFalsy v \<longleftrightarrow> (case v of None \<Rightarrow> True | Some s \<Rightarrow> s = [])"

text \<open>The literal \<^verbatim>\<open>0.1\<close> denotes the double nearest to one tenth.\<close>

definition hardcodedAmount :: real where
  "hardcodedAmount = roundDouble 0.1"

text \<open>\<^verbatim>\<open>"0x" + Math.floor(hardcodedAmount * 1e18).toString(16)\<close>\<close>

definition amountWei :: string where
  "amountWei = ''0x'' @ toString16 (nat \<lfloor>roundDouble (hardcodedAmount * 10 ^ 18)\<rfloor>)"

text \<open>The replacement both send functions apply to a recipient address.\<close>

definition substituteAddress :: "string \<Rightarrow> string" where
  "substituteAddress a = (if isPlaceholder a \<or> \<not> isValidAddress a then TEST_ADDRESS else a)"

definition paymentFailure :: "thrown \<Rightarrow> payment_outcome" where
  "paymentFailure e =
     \<lparr>success = False, txHash = None, error = Some (errorText e),
      platformFee = None, netAmount = None\<rparr>"

text \<open>sendPayment; the parameters \<^verbatim>\<open>_token\<close> and
  \<^verbatim>\<open>_walletSignAndSubmitTransaction\<close> are never read and are left out.\<close>

definition sendPayment ::
  "host \<Rightarrow> string \<Rightarrow> real \<Rightarrow> bool \<Rightarrow> world \<Rightarrow> payment_outcome \<times> world" where
  "sendPayment h rcpt amt includePlatformFee w =
     (case ensureMonadNetwork h w of
        (Inl e, w1) \<Rightarrow> (paymentFailure e, w1)
      | (Inr u, w1) \<Rightarrow>
          (let validatedRecipient = substituteAddress rcpt in
           if \<not> isValidAddress validatedRecipient
             then (paymentFailure (Error ''Invalid Monad address''), w1)
           else if amt \<le> 0
             then (paymentFailure (Error ''Amount must be greater than 0''), w1)
           else if isFalsy (connectedAccount w1)
             then (paymentFailure (Error ''No wallet connected''), w1)
           else
             (case getProvider h of
                Inl e \<Rightarrow> (paymentFailure e, w1)
              | Inr eth \<Rightarrow>
                  (let fee = (if includePlatformFee then calculatePlatformFee64 amt else 0);
                       net = (if includePlatformFee then roundDouble (amt - fee) else amt);
                       tx = \<lparr>tx_from = connectedAccount w1, tx_to = validatedRecipient,
                             tx_value = amountWei, tx_gas = ''0x5208''\<rparr>
                   in
                   (case call eth (Eth_sendTransaction tx)
                           (\<lambda>r past. on_sendTransaction r past tx) w1 of
                      (Inl e, w2) \<Rightarrow> (paymentFailure e, w2)
                    | (Inr sentHash, w2) \<Rightarrow>
                        (\<lparr>success = True, txHash = Some sentHash, error = None,
                          platformFee = (if includePlatformFee then Some fee else None),
                          netAmount = (if includePlatformFee then Some net else None)\<rparr>,
                         w2))))))"

definition bulkFailure :: "thrown \<Rightarrow> bulk_outcome" where
  "bulkFailure e =
     \<lparr>success = False, txHash = None, error = Some (errorText e),
      totalPlatformFee = None, totalNetAmount = None, failedTransactions = None\<rparr>"

text \<open>The validation loop over the substituted recipients: the first throw, if any.\<close>

fun validateRecipients :: "recipient list \<Rightarrow> thrown option" where
  "validateRecipients [] = None"
| "validateRecipients (r # rs) =
     (if \<not> isValidAddress (address r)
        then Some (Error (''Invalid Monad address: '' @ address r))
      else if amount r \<le> 0 then Some (Error ''Amount must be greater than 0'')
      else validateRecipients rs)"

text \<open>
  The submission loop. Its variables are \<^verbatim>\<open>lastTxHash\<close>, \<^verbatim>\<open>totalNetAmount\<close> and
  \<^verbatim>\<open>failedTransactions\<close>; the net amount is added (and the sum rounded) before the
  request is issued, and a rejected request only increments the failure count. The pause
  of one second after each recipient is not modelled.
\<close>

fun bulkLoop ::
  "provider \<Rightarrow> recipient list \<Rightarrow> string \<times> real \<times> nat \<Rightarrow> world \<Rightarrow> (string \<times> real \<times> nat) \<times> world" where
  "bulkLoop eth [] vars w = (vars, w)"
| "bulkLoop eth (r # rs) (lastTxHash, totalNet, failed) w =
     (let net = hardcodedAmount;
          totalNet' = roundDouble (totalNet + net);
          tx = \<lparr>tx_from = connectedAccount w, tx_to = address r,
                tx_value = ''0x'' @ toString16 (nat \<lfloor>roundDouble (net * 10 ^ 18)\<rfloor>),
                tx_gas = ''0x5208''\<rparr>
      in
      (case call eth (Eth_sendTransaction tx) (\<lambda>q past. on_sendTransaction q past tx) w of
         (Inr sentHash, w') \<Rightarrow> bulkLoop eth rs (sentHash, totalNet', failed) w'
       | (Inl txError, w') \<Rightarrow> bulkLoop eth rs (lastTxHash, totalNet', failed + 1) w'))"

definition sendBulkPayment ::
  "host \<Rightarrow> recipient list \<Rightarrow> bool \<Rightarrow> world \<Rightarrow> bulk_outcome \<times> world" where
  "sendBulkPayment h recipients includePlatformFee w =
     (case ensureMonadNetwork h w of
        (Inl e, w1) \<Rightarrow> (bulkFailure e, w1)
      | (Inr u, w1) \<Rightarrow>
          (if recipients = [] then (bulkFailure (Error ''No recipients provided''), w1)
           else if isFalsy (connectedAccount w1)
             then (bulkFailure (Error ''No wallet connected''), w1)
           else
             (let validatedRecipients =
                    map (\<lambda>r. if isPlaceholder (address r) \<or> \<not> isValidAddress (address r)
                              then r\<lparr>address := TEST_ADDRESS\<rparr> else r) recipients
              in
              (case validateRecipients validatedRecipients of
                 Some e \<Rightarrow> (bulkFailure e, w1)
               | None \<Rightarrow>
                   (case getProvider h of
                      Inl e \<Rightarrow> (bulkFailure e, w1)
                    | Inr eth \<Rightarrow>
                        (let fees =
                               (if includePlatformFee
                                then foldl (\<lambda>sum r. roundDouble
                                                       (sum + calculatePlatformFee64 (amount r)))
                                       0 recipients
                                else 0)
                         in
                         (case bulkLoop eth validatedRecipients ([], 0, 0) w1 of
                            ((lastTxHash, totalNet, failed), w2) \<Rightarrow>
                              (\<lparr>success = (failed < length recipients),
                                txHash = Some lastTxHash,
                                error = None,
                                totalPlatformFee =
                                  (if includePlatformFee then Some fees else None),
                                totalNetAmount =
                                  (if includePlatformFee then Some totalNet else None),
                                failedTransactions =
                                  (if 0 < failed then Some failed else None)\<rparr>,
                               w2))))))))"

section \<open>Transaction details\<close>




section \<open>Reference notions and test doubles\<close>

text \<open>The transfers among the requests of a history, in the order they were issued.\<close>

fun submitted :: "history \<Rightarrow> tx_params list" where
  "submitted [] = []"
| "submitted (Eth_sendTransaction t # rest) = t # submitted rest"
| "submitted (q # rest) = submitted rest"

definition account1 :: string where
  "account1 = ''0x1111111111111111111111111111111111111111''"

definition address2 :: string where
  "address2 = ''0x2222222222222222222222222222222222222222''"

definition address3 :: string where
  "address3 = ''0x3333333333333333333333333333333333333333''"

text \<open>A provider that grants every request.\<close>

definition okRpc :: rpc where
  "okRpc =
     \<lparr>on_requestAccounts = (\<lambda>past. Inr (Some [account1])),
      on_accounts = (\<lambda>past. Inr (Some [account1])),
      on_switchEthereumChain = (\<lambda>past c. Inr ()),
      on_addEthereumChain = (\<lambda>past p. Inr ()),
      on_getBalance = (\<lambda>past a tag. Inr ''0x16345785d8a0000''),
      on_sendTransaction = (\<lambda>past t. Inr (''tx:'' @ tx_to t)),
      on_getTransactionByHash = (\<lambda>past x. Inr (Some \<lparr>gasPrice = Some ''0x3b9aca00''\<rparr>)),
      on_getTransactionReceipt =
        (\<lambda>past x. Inr (Some \<lparr>status = Some ''0x1'', gasUsed = Some ''0x5208''\<rparr>))\<rparr>"

definition userRejected :: thrown where
  "userRejected = Thrown True (Some 4001) ''User rejected the request.''"

text \<open>A host with one wallet, flagged as MetaMask, answering with the given handlers.\<close>

definition walletHost :: "rpc \<Rightarrow> host" where
  "walletHost r =
     \<lparr>hasWindow = True,
      ethereum = Some \<lparr>self = \<lparr>ident = 0, isMetaMask = True, request = Some r\<rparr>,
                       providers = None\<rparr>,
      solana = None\<rparr>"

definition connectedWorld :: world where
  "connectedWorld = \<lparr>connectedAccount = Some account1, localStorage = Some account1, log = []\<rparr>"

definition freshWorld :: world where
  "freshWorld = \<lparr>connectedAccount = None, localStorage = None, log = []\<rparr>"

text \<open>What the provider answers to a sequence of transfers submitted one after the
  other, starting from a given history.\<close>

fun submissionReplies :: "rpc \<Rightarrow> history \<Rightarrow> tx_params list \<Rightarrow> (thrown + string) list" where
  "submissionReplies r past [] = []"
| "submissionReplies r past (t # ts) =
     on_sendTransaction r past t # submissionReplies r (past @ [Eth_sendTransaction t]) ts"

text \<open>The hashes of the accepted submissions, and the number of rejected ones.\<close>

fun hashesOf :: "(thrown + string) list \<Rightarrow> string list" where
  "hashesOf [] = []"
| "hashesOf (Inr txh # rest) = txh # hashesOf rest"
| "hashesOf (Inl e # rest) = hashesOf rest"

fun failureCount :: "(thrown + string) list \<Rightarrow> nat" where
  "failureCount [] = 0"
| "failureCount (Inr txh # rest) = failureCount rest"
| "failureCount (Inl e # rest) = Suc (failureCount rest)"

text \<open>The transfer of the fixed amount (0.1 MON in wei, hexadecimal) with the fixed gas
  limit (21000, hexadecimal).\<close>

definition fixedTransfer :: "string option \<Rightarrow> string \<Rightarrow> tx_params" where
  "fixedTransfer sender receiver =
     \<lparr>tx_from = sender, tx_to = receiver, tx_value = ''0x16345785d8a0000'', tx_gas = ''0x5208''\<rparr>"

text \<open>A provider that rejects the second transfer it is asked to submit.\<close>

definition rejectSecondRpc :: rpc where
  "rejectSecondRpc =
     okRpc\<lparr>on_sendTransaction :=
       (\<lambda>past t. if length (submitted past) = 1 then Inl userRejected
                  else Inr (''tx:'' @ tx_to t))\<rparr>"

definition threeRecipients :: "recipient list" where
  "threeRecipients =
     [\<lparr>address = address2, amount = 10\<rparr>, \<lparr>address = address3, amount = 20\<rparr>,
      \<lparr>address = ''somebody'', amount = 30\<rparr>]"

text \<open>A browser without any injected wallet.\<close>

definition noWalletHost :: host where
  "noWalletHost = \<lparr>hasWindow = True, ethereum = None, solana = None\<rparr>"

text \<open>An address of the right shape that is also a placeholder.\<close>

definition placeholder1 :: string where
  "placeholder1 = ''0x0000000000000000000000000000000000000001''"

text \<open>A wallet that does not know the Monad chain, one that moreover has the user refuse
  to add it, and one whose user refuses the switch.\<close>

definition unknownChain :: thrown where
  "unknownChain = Thrown True (Some 4902) ''Unrecognized chain ID 0x279F.''"

definition unknownChainRpc :: rpc where
  "unknownChainRpc = okRpc\<lparr>on_switchEthereumChain := (\<lambda>past c. Inl unknownChain)\<rparr>"

definition refuseAddRpc :: rpc where
  "refuseAddRpc = unknownChainRpc\<lparr>on_addEthereumChain := (\<lambda>past p. Inl userRejected)\<rparr>"

definition refuseSwitchRpc :: rpc where
  "refuseSwitchRpc = okRpc\<lparr>on_switchEthereumChain := (\<lambda>past c. Inl userRejected)\<rparr>"

text \<open>The add-chain parameters the module sends, written out.\<close>

definition sentChainParams :: add_chain_params where
  "sentChainParams =
     \<lparr>p_chainId = ''0x279F'',
      p_chainName = ''Monad Testnet'',
      p_nativeCurrency = \<lparr>name = ''Monad'', symbol = ''MON'', decimals = 18\<rparr>,
      p_rpcUrls = [''https://testnet-rpc.monad.xyz''],
      p_blockExplorerUrls = [''https://testnet.monadexplorer.com/'']\<rparr>"

text \<open>The test \<^verbatim>\<open>p && p.isMetaMask\<close> on an entry of the provider array.\<close>

definition flaggedMetaMask :: "provider option \<Rightarrow> bool" where
  "flaggedMetaMask p = (case p of None \<Rightarrow> False | Some q \<Rightarrow> isMetaMask q)"

text \<open>The test \<^verbatim>\<open>p && typeof p.request === "function"\<close>.\<close>

definition exposesRequest :: "provider option \<Rightarrow> bool" where
  "exposesRequest p = (case p of None \<Rightarrow> False | Some q \<Rightarrow> request q \<noteq> None)"

text \<open>A host whose \<^verbatim>\<open>window.ethereum\<close> is the given object with the given array of
  sub-providers.\<close>

definition multiWalletHost :: "provider \<Rightarrow> provider option list \<Rightarrow> host" where
  "multiWalletHost outer ps =
     \<lparr>hasWindow = True, ethereum = Some \<lparr>self = outer, providers = Some ps\<rparr>, solana = None\<rparr>"

definition inertObject :: provider where
  "inertObject = \<lparr>ident = 0, isMetaMask = False, request = None\<rparr>"

definition otherWallet :: provider where
  "otherWallet = \<lparr>ident = 1, isMetaMask = False, request = Some okRpc\<rparr>"

definition metaMaskWallet :: provider where
  "metaMaskWallet = \<lparr>ident = 2, isMetaMask = True, request = Some okRpc\<rparr>"

definition brokenWallet :: provider where
  "brokenWallet = \<lparr>ident = 3, isMetaMask = False, request = None\<rparr>"


text \<open>Providers whose node cannot be reached for the transaction or for the receipt,
  and one that reports a reverted transaction.\<close>

definition nodeUnreachable :: thrown where
  "nodeUnreachable = Thrown True (Some (-32603)) ''Internal JSON-RPC error.''"





text \<open>The same for reconnectWallet, which asks with \<^verbatim>\<open>eth_accounts\<close>.\<close>

definition listedAccount :: "host \<Rightarrow> world \<Rightarrow> string option" where
  "listedAccount h w =
     (case getProvider h of
        Inl e \<Rightarrow> None
      | Inr eth \<Rightarrow>
          (case request eth of
             None \<Rightarrow> None
           | Some r \<Rightarrow>
               (case on_accounts r (log w) of
                  Inr (Some (a # others)) \<Rightarrow> Some a
                | _ \<Rightarrow> None)))"



definition noAccountsRpc :: rpc where
  "noAccountsRpc = okRpc\<lparr>on_accounts := (\<lambda>past. Inr (Some []))\<rparr>"

definition failBalanceRpc :: rpc where
  "failBalanceRpc = okRpc\<lparr>on_getBalance := (\<lambda>past a tag. Inl nodeUnreachable)\<rparr>"

text \<open>The same computation on numbers measured in units of the smallest subnormal.\<close>

definition feeU :: "real \<Rightarrow> real" where
  "feeU N = roundUnits (roundUnits (N * (1/2)) / 100)"

definition netU :: "real \<Rightarrow> real" where
  "netU N = roundUnits (N - feeU N)"

definition sumU :: "real \<Rightarrow> real" where
  "sumU N = roundUnits (feeU N + netU N)"

text \<open>A positive double near \<open>5.7e-308\<close> (in hexadecimal notation
  \<^verbatim>\<open>0x1.485342bdcc28fp-1021\<close>); its platform fee is subnormal.\<close>

definition tinyAmount :: real where
  "tinyAmount = 5775958654894735 / 2 ^ 1073"



text \<open>The values \<^verbatim>\<open>undefined\<close> and \<^verbatim>\<open>null\<close>, and a wallet that rejects the switch
  request with \<^verbatim>\<open>undefined\<close>.\<close>

definition isNullish :: "thrown \<Rightarrow> bool" where
  "isNullish v \<longleftrightarrow> v = ThrownUndefined \<or> v = ThrownNull"

definition rejectUndefinedRpc :: rpc where
  "rejectUndefinedRpc = okRpc\<lparr>on_switchEthereumChain := (\<lambda>past c. Inl ThrownUndefined)\<rparr>"

section \<open>Fee arithmetic in double precision\<close>

lemma rhe_cases:
  "\<lfloor>r\<rfloor> = f \<Longrightarrow> r - of_int f = d \<Longrightarrow>
   roundHalfEven r =
     (if d < 1/2 then f else if 1/2 < d then f + 1 else if even f then f else f + 1)"
  by (auto simp: roundHalfEven_def Let_def)

lemma rhe_int [simp]: "roundHalfEven (of_int n) = n"
  by (simp add: roundHalfEven_def)

lemma rhe_near:
  assumes "\<bar>r - of_int n\<bar> < 1/2"
  shows "roundHalfEven r = n"
proof (cases "of_int n \<le> r")
  case True
  then have f: "\<lfloor>r\<rfloor> = n" using assms by (intro floor_unique) linarith+
  show ?thesis using assms True by (simp add: roundHalfEven_def f Let_def)
next
  case False
  then have f: "\<lfloor>r\<rfloor> = n - 1" using assms by (intro floor_unique) (simp, linarith)+
  show ?thesis using assms False by (simp add: roundHalfEven_def f Let_def)
qed

lemma rhe_even:
  assumes "even n" "\<bar>r - of_int n\<bar> \<le> 1/2"
  shows "roundHalfEven r = n"
proof -
  consider "\<bar>r - of_int n\<bar> < 1/2" | "r = of_int n + 1/2" | "r = of_int n - 1/2"
    using assms(2) by linarith
  then show ?thesis
  proof cases
    case 1
    then show ?thesis by (rule rhe_near)
  next
    case 2
    then have f: "\<lfloor>r\<rfloor> = n" by (intro floor_unique) simp_all
    have d: "r - of_int n = 1/2" using 2 by simp
    show ?thesis using assms(1) by (simp add: rhe_cases [OF f d])
  next
    case 3
    then have f: "\<lfloor>r\<rfloor> = n - 1" by (intro floor_unique) simp_all
    have d: "r - of_int (n - 1) = 1/2" using 3 by simp
    show ?thesis using assms(1) by (simp add: rhe_cases [OF f d])
  qed
qed

lemma rhe_err: "\<bar>of_int (roundHalfEven r) - r\<bar> \<le> 1/2"
proof -
  have "of_int \<lfloor>r\<rfloor> \<le> r" "r < of_int \<lfloor>r\<rfloor> + 1" by linarith+
  then show ?thesis
    by (auto simp: roundHalfEven_def Let_def)
qed

lemma rhe_tie:
  assumes "\<bar>of_int (roundHalfEven r) - r\<bar> = 1/2"
  shows "r = of_int \<lfloor>r\<rfloor> + 1/2"
proof -
  have "of_int \<lfloor>r\<rfloor> \<le> r" "r < of_int \<lfloor>r\<rfloor> + 1" by linarith+
  then show ?thesis
    using assms by (auto simp: roundHalfEven_def Let_def split: if_splits)
qed

lemma rhe_minus: "roundHalfEven (- r) = - roundHalfEven r"
proof -
  have e: "\<bar>of_int (roundHalfEven r) - r\<bar> \<le> 1/2" by (rule rhe_err)
  show ?thesis
  proof (cases "\<bar>of_int (roundHalfEven r) - r\<bar> < 1/2")
    case True
    then show ?thesis by (intro rhe_near) simp
  next
    case False
    with e have t: "\<bar>of_int (roundHalfEven r) - r\<bar> = 1/2" by linarith
    from rhe_tie [OF t] have r: "r = of_int \<lfloor>r\<rfloor> + 1/2" .
    have v: "roundHalfEven r = (if even \<lfloor>r\<rfloor> then \<lfloor>r\<rfloor> else \<lfloor>r\<rfloor> + 1)"
      using r by (simp add: roundHalfEven_def Let_def)
    then have "even (roundHalfEven r)" by auto
    then have "even (- roundHalfEven r)" by simp
    then show ?thesis by (rule rhe_even) (use e in simp)
  qed
qed

lemma grid_small: "\<bar>r\<bar> < 2 ^ 53 \<Longrightarrow> gridU r = 1"
proof -
  assume a: "\<bar>r\<bar> < 2 ^ 53"
  then have "\<lfloor>\<bar>r\<bar>\<rfloor> < 2 ^ 53" by (simp add: floor_less_iff)
  then have "bitlen \<lfloor>\<bar>r\<bar>\<rfloor> \<le> 53" by (simp add: bitlen_le_iff_power)
  then show ?thesis by (simp add: gridU_def)
qed

lemma grid_normal:
  assumes "2 ^ (52 + j) \<le> \<bar>r\<bar>" "\<bar>r\<bar> < 2 ^ (53 + j)"
  shows "gridU r = 2 ^ j"
proof -
  have "(2::int) ^ (52 + j) \<le> \<lfloor>\<bar>r\<bar>\<rfloor>" using assms(1) by (simp add: le_floor_iff)
  then have 1: "53 + int j \<le> bitlen \<lfloor>\<bar>r\<bar>\<rfloor>"
    by (simp add: bitlen_ge_iff_power nat_add_distrib)
  have "\<lfloor>\<bar>r\<bar>\<rfloor> < (2::int) ^ (53 + j)" using assms(2) by (simp add: floor_less_iff)
  then have 2: "bitlen \<lfloor>\<bar>r\<bar>\<rfloor> \<le> 53 + int j"
    by (simp add: bitlen_le_iff_power nat_add_distrib)
  from 1 2 have "bitlen \<lfloor>\<bar>r\<bar>\<rfloor> = 53 + int j" by linarith
  then show ?thesis by (simp add: gridU_def)
qed

lemma roundUnits_grid:
  assumes "gridU r = g" "0 < g"
  shows "roundUnits r = of_int (roundHalfEven (r / g)) * g"
    and "\<bar>roundUnits r - r\<bar> \<le> g / 2"
proof -
  show e: "roundUnits r = of_int (roundHalfEven (r / g)) * g"
    using assms by (simp add: roundUnits_def)
  have "\<bar>of_int (roundHalfEven (r / g)) - r / g\<bar> \<le> 1/2" by (rule rhe_err)
  then have "\<bar>of_int (roundHalfEven (r / g)) - r / g\<bar> * g \<le> 1/2 * g"
    using assms(2) by (intro mult_right_mono) simp_all
  moreover have "of_int (roundHalfEven (r / g)) * g - r
      = (of_int (roundHalfEven (r / g)) - r / g) * g"
    using assms(2) by (simp add: field_simps)
  moreover have "\<bar>(of_int (roundHalfEven (r / g)) - r / g) * g\<bar>
      = \<bar>of_int (roundHalfEven (r / g)) - r / g\<bar> * g"
    using assms(2) by (simp add: abs_mult)
  ultimately show "\<bar>roundUnits r - r\<bar> \<le> g / 2"
    by (simp add: e)
qed

lemma real_bounds:
  fixes M :: int
  assumes "2 ^ 52 \<le> M" "M < 2 ^ 53"
  shows "4503599627370496 \<le> real_of_int M" "real_of_int M < 9007199254740992"
proof -
  have "real_of_int (2 ^ 52) \<le> real_of_int M" using assms(1) by (simp only: of_int_le_iff)
  then show "4503599627370496 \<le> real_of_int M" by simp
  have "real_of_int M < real_of_int (2 ^ 53)" using assms(2) by (simp only: of_int_less_iff)
  then show "real_of_int M < 9007199254740992" by simp
qed

lemma grid_2: "9007199254740992 \<le> \<bar>r\<bar> \<Longrightarrow> \<bar>r\<bar> < 18014398509481984 \<Longrightarrow> gridU r = 2"
  using grid_normal [of 1 r] by simp

lemma grid_4: "18014398509481984 \<le> \<bar>r\<bar> \<Longrightarrow> \<bar>r\<bar> < 36028797018963968 \<Longrightarrow> gridU r = 4"
  using grid_normal [of 2 r] by simp

lemma grid_256:
  "1152921504606846976 \<le> \<bar>r\<bar> \<Longrightarrow> \<bar>r\<bar> < 2305843009213693952 \<Longrightarrow> gridU r = 256"
  using grid_normal [of 8 r] by simp

lemma grid_512:
  "2305843009213693952 \<le> \<bar>r\<bar> \<Longrightarrow> \<bar>r\<bar> < 4611686018427387904 \<Longrightarrow> gridU r = 512"
  using grid_normal [of 9 r] by simp

lemma core_half:
  fixes M :: int
  assumes "2 ^ 52 \<le> M" "M < 2 ^ 53" and N: "N = 512 * real_of_int M"
  shows "roundUnits (N * (1/2)) = N / 2"
proof -
  note m = real_bounds [OF assms(1,2)]
  have "gridU (N * (1/2)) = 256"
    by (rule grid_256) (use m N in linarith)+
  from roundUnits_grid(1) [OF this]
  have "roundUnits (N * (1/2)) = of_int (roundHalfEven (N * (1/2) / 256)) * 256"
    by simp
  also have "N * (1/2) / 256 = of_int M"
    using N by simp
  finally show ?thesis
    using N by simp
qed

lemma core_fee:
  fixes M :: int
  assumes "2 ^ 52 \<le> M" "M < 2 ^ 53" and N: "N = 512 * real_of_int M"
  shows "\<bar>feeU N - N / 200\<bar> \<le> 2"
proof -
  note m = real_bounds [OF assms(1,2)]
  define x where "x = N / 2 / 100"
  have f: "feeU N = roundUnits x"
    by (simp only: feeU_def core_half [OF assms] x_def)
  have x200: "x = N / 200"
    by (simp add: x_def)
  have x: "9007199254740992 \<le> x" "x < 36028797018963968"
    using m N by (simp_all add: x200)
  show ?thesis
  proof (cases "x < 18014398509481984")
    case True
    have "gridU x = 2"
      by (rule grid_2) (use x True in linarith)+
    from roundUnits_grid(2) [OF this] show ?thesis
      by (simp add: f x200)
  next
    case False
    have "gridU x = 4"
      by (rule grid_4) (use x False in linarith)+
    from roundUnits_grid(2) [OF this] show ?thesis
      by (simp add: f x200)
  qed
qed

lemma core_sum:
  fixes M :: int
  assumes "2 ^ 52 \<le> M" "M < 2 ^ 53" and N: "N = 512 * real_of_int M"
  shows "sumU N = N"
proof -
  note m = real_bounds [OF assms(1,2)]
  define f where "f = feeU N"
  define s where "s = N - f"
  have Nb: "2305843009213693952 \<le> N" "N < 4611686018427387904"
    using m by (simp_all add: N)
  have ferr: "\<bar>f - N / 200\<bar> \<le> 2"
    using core_fee [OF assms] by (simp add: f_def)
  have sb: "1152921504606846976 \<le> s" "s < 4611686018427387904" "s < N"
    using Nb ferr unfolding s_def by linarith+
  have Nhi: "N \<le> 4611686018427387904 - 512"
  proof -
    have "M \<le> 2 ^ 53 - 1" using assms(2) by simp
    then have "real_of_int M \<le> real_of_int (2 ^ 53 - 1)" by (simp only: of_int_le_iff)
    then show ?thesis by (simp add: N)
  qed
  define t where "t = f + roundUnits s"
  have goal: "roundUnits t = N"
  proof (cases "s < 2305843009213693952")
    case False
    \<comment> \<open>the difference stays in the binade of the amount\<close>
    have g: "gridU s = 512"
      by (rule grid_512) (use False sb in linarith)+
    define K where "K = roundHalfEven (s / 512)"
    have n: "roundUnits s = of_int K * 512"
      using roundUnits_grid(1) [OF g] by (simp add: K_def)
    have kerr: "\<bar>of_int K - s / 512\<bar> \<le> 1/2"
      unfolding K_def by (rule rhe_err)
    have tK: "t = f + of_int K * 512"
      by (simp add: t_def n)
    have fs: "f = 512 * real_of_int M - s"
      by (simp add: s_def N)
    have t: "t / 512 = of_int M + (of_int K - s / 512)"
      unfolding tK fs by (simp add: field_simps)
    have "2305843009213693952 < N" using False sb(3) by linarith
    then have "real_of_int (2 ^ 52) < real_of_int M" by (simp add: N)
    then have "2 ^ 52 < M" by (simp only: of_int_less_iff)
    then have "2 ^ 52 + 1 \<le> M" by simp
    then have "real_of_int (2 ^ 52 + 1) \<le> real_of_int M" by (simp only: of_int_le_iff)
    then have Nlo: "2305843009213693952 + 512 \<le> N" by (simp add: N)
    have t512: "t = N + 512 * (of_int K - s / 512)"
      using t N by (simp add: field_simps)
    have kb: "- (1/2) \<le> of_int K - s / 512" "of_int K - s / 512 \<le> 1/2"
      using kerr by linarith+
    have tN: "N - 256 \<le> t" "t \<le> N + 256"
      using t512 kb by simp_all
    have gt: "gridU t = 512"
      by (rule grid_512) (use tN Nlo Nhi in linarith)+
    have r: "roundHalfEven (t / 512) = M"
    proof (cases "\<bar>of_int K - s / 512\<bar> < 1/2")
      case True
      then show ?thesis by (intro rhe_near) (simp add: t)
    next
      case False
      with kerr have tie: "\<bar>of_int K - s / 512\<bar> = 1/2" by linarith
      define K0 where "K0 = \<lfloor>s / 512\<rfloor>"
      have s5: "s / 512 = of_int K0 + 1/2"
        using rhe_tie [of "s / 512"] tie by (simp add: K_def K0_def)
      have s5': "s = 512 * real_of_int K0 + 256"
        using s5 by simp
      have "\<bar>200 * (real_of_int M - real_of_int K0) - 100 - real_of_int M\<bar> < 1"
        using ferr s5' unfolding s_def N by argo
      then have "\<bar>real_of_int (200 * (M - K0) - 100 - M)\<bar> < real_of_int 1"
        by simp
      then have "\<bar>200 * (M - K0) - 100 - M\<bar> < 1"
        by (simp only: of_int_abs [symmetric] of_int_less_iff)
      then have "M = 200 * (M - K0) - 100" by linarith
      then have "M = 2 * (100 * (M - K0) - 50)" by simp
      then have "even M" by (rule dvdI)
      then show ?thesis
        by (rule rhe_even) (use kerr in \<open>simp add: t\<close>)
    qed
    show ?thesis
      using roundUnits_grid(1) [OF gt] r by (simp add: N)
  next
    case True
    \<comment> \<open>the difference falls into the binade below\<close>
    have g: "gridU s = 256"
      by (rule grid_256) (use True sb in linarith)+
    have terr: "\<bar>t - N\<bar> \<le> 128"
      using roundUnits_grid(2) [OF g] by (simp add: t_def s_def)
    show ?thesis
    proof (cases "2305843009213693952 \<le> t")
      case True
      have gt: "gridU t = 512"
        by (rule grid_512) (use True terr Nhi in linarith)+
      have "\<bar>t / 512 - of_int M\<bar> < 1/2"
        using terr unfolding N by linarith
      then have "roundHalfEven (t / 512) = M" by (rule rhe_near)
      then show ?thesis
        using roundUnits_grid(1) [OF gt] by (simp add: N)
    next
      case False
      then have "N < 2305843009213693952 + 128" using terr by linarith
      then have "real_of_int M < real_of_int (2 ^ 52 + 1)" by (simp add: N)
      then have "M < 2 ^ 52 + 1" by (simp only: of_int_less_iff)
      then have M: "M = 2 ^ 52" using assms(1) by simp
      then have N': "N = 2305843009213693952" by (simp add: N)
      have gt: "gridU t = 256"
        by (rule grid_256) (use False terr N' in linarith)+
      have "even (9007199254740992::int)" by simp
      moreover have "\<bar>t / 256 - of_int 9007199254740992\<bar> \<le> 1/2"
        using terr False N' by simp
      ultimately have "roundHalfEven (t / 256) = 9007199254740992" by (rule rhe_even)
      then show ?thesis
        using roundUnits_grid(1) [OF gt] by (simp add: N')
    qed
  qed
  then show ?thesis
    by (simp add: sumU_def netU_def f_def s_def t_def)
qed

lemma binade_exists:
  fixes r :: real
  assumes "2 ^ 52 \<le> \<bar>r\<bar>"
  shows "\<exists>j. 2 ^ (52 + j) \<le> \<bar>r\<bar> \<and> \<bar>r\<bar> < 2 ^ (53 + j)"
proof -
  define x where "x = \<lfloor>\<bar>r\<bar>\<rfloor>"
  have x52: "2 ^ 52 \<le> x"
    using assms by (simp add: x_def le_floor_iff)
  then have pos: "0 < x" by (smt (verit) zero_less_power)
  have "53 \<le> bitlen x"
    using x52 by (simp add: bitlen_ge_iff_power)
  then obtain j where j: "bitlen x = 53 + int j"
    by (metis nonneg_int_cases diff_ge_0_iff_ge add_diff_cancel_left' add.commute diff_add_cancel)
  have n: "nat (bitlen x - 1) = 52 + j" "nat (bitlen x) = 53 + j"
    using j by simp_all
  from bitlen_bounds [OF pos] have b: "2 ^ (52 + j) \<le> x" "x < 2 ^ (53 + j)"
    by (simp_all add: n)
  have "2 ^ (52 + j) \<le> real_of_int x"
    using b(1) by simp
  moreover have "real_of_int x \<le> \<bar>r\<bar>"
    by (simp add: x_def)
  ultimately have 1: "2 ^ (52 + j) \<le> \<bar>r\<bar>" by linarith
  have "x + 1 \<le> 2 ^ (53 + j)" using b(2) by simp
  then have "real_of_int (x + 1) \<le> 2 ^ (53 + j)"
    by (simp only: of_int_le_numeral_power_cancel_iff)
  then have "real_of_int x + 1 \<le> 2 ^ (53 + j)" by simp
  moreover have "\<bar>r\<bar> < real_of_int x + 1"
    unfolding x_def by linarith
  ultimately have 2: "\<bar>r\<bar> < 2 ^ (53 + j)" by linarith
  from 1 2 show ?thesis by blast
qed

lemma roundUnits_scale:
  assumes "2 ^ 52 \<le> \<bar>r\<bar>"
  shows "roundUnits (r * 2 ^ i) = roundUnits r * 2 ^ i"
proof -
  obtain j where j: "2 ^ (52 + j) \<le> \<bar>r\<bar>" "\<bar>r\<bar> < 2 ^ (53 + j)"
    using binade_exists [OF assms] by blast
  have g: "gridU r = 2 ^ j"
    using j by (rule grid_normal)
  have "2 ^ (52 + j) * 2 ^ i \<le> \<bar>r\<bar> * 2 ^ i"
    using j(1) by (intro mult_right_mono) simp_all
  then have 1: "2 ^ (52 + (j + i)) \<le> \<bar>r * 2 ^ i\<bar>"
    by (simp add: abs_mult power_add)
  have "\<bar>r\<bar> * 2 ^ i < 2 ^ (53 + j) * 2 ^ i"
    using j(2) by (intro mult_strict_right_mono) simp_all
  then have 2: "\<bar>r * 2 ^ i\<bar> < 2 ^ (53 + (j + i))"
    by (simp add: abs_mult power_add)
  have g': "gridU (r * 2 ^ i) = 2 ^ (j + i)"
    using 1 2 by (rule grid_normal)
  have "r * 2 ^ i / 2 ^ (j + i) = r / 2 ^ j"
    by (simp add: power_add)
  then show ?thesis
    by (simp add: roundUnits_def g g' power_add)
qed

lemma roundUnits_minus: "roundUnits (- r) = - roundUnits r"
  by (simp add: roundUnits_def gridU_def rhe_minus)

lemma core_ranges:
  fixes M :: int
  assumes "2 ^ 52 \<le> M" "M < 2 ^ 53" and N: "N = 512 * real_of_int M"
  shows "2 ^ 52 \<le> \<bar>N * (1/2)\<bar>"
    and "2 ^ 52 \<le> \<bar>roundUnits (N * (1/2)) / 100\<bar>"
    and "2 ^ 52 \<le> \<bar>N - feeU N\<bar>"
    and "2 ^ 52 \<le> \<bar>feeU N + netU N\<bar>"
proof -
  note m = real_bounds [OF assms(1,2)]
  have Nb: "2305843009213693952 \<le> N" "N < 4611686018427387904"
    using m by (simp_all add: N)
  show "2 ^ 52 \<le> \<bar>N * (1/2)\<bar>"
    using Nb by simp
  show "2 ^ 52 \<le> \<bar>roundUnits (N * (1/2)) / 100\<bar>"
    unfolding core_half [OF assms] using Nb by simp
  have ferr: "\<bar>feeU N - N / 200\<bar> \<le> 2"
    by (rule core_fee [OF assms])
  define s where "s = N - feeU N"
  have sb: "1152921504606846976 \<le> s" "s < 4611686018427387904"
    using Nb ferr unfolding s_def by linarith+
  then show "2 ^ 52 \<le> \<bar>N - feeU N\<bar>"
    by (simp add: s_def)
  have "\<bar>roundUnits s - s\<bar> \<le> 256"
  proof (cases "s < 2305843009213693952")
    case True
    have "gridU s = 256"
      by (rule grid_256) (use True sb in linarith)+
    from roundUnits_grid(2) [OF this] show ?thesis by simp
  next
    case False
    have "gridU s = 512"
      by (rule grid_512) (use False sb in linarith)+
    from roundUnits_grid(2) [OF this] show ?thesis by simp
  qed
  then have "N - 256 \<le> feeU N + netU N"
    unfolding netU_def s_def by linarith
  then show "2 ^ 52 \<le> \<bar>feeU N + netU N\<bar>"
    using Nb by simp
qed

lemma core_scale:
  fixes M :: int
  assumes "2 ^ 52 \<le> M" "M < 2 ^ 53" and N: "N = 512 * real_of_int M"
  shows "sumU (N * 2 ^ i) = N * 2 ^ i"
proof -
  note r = core_ranges [OF assms]
  have "N * 2 ^ i * (1/2) = N * (1/2) * 2 ^ i" by simp
  then have h: "roundUnits (N * 2 ^ i * (1/2)) = roundUnits (N * (1/2)) * 2 ^ i"
    by (simp only: roundUnits_scale [OF r(1)])
  have "roundUnits (N * (1/2)) * 2 ^ i / 100 = roundUnits (N * (1/2)) / 100 * 2 ^ i" by simp
  then have f: "feeU (N * 2 ^ i) = feeU N * 2 ^ i"
    by (simp only: feeU_def h roundUnits_scale [OF r(2)])
  have "N * 2 ^ i - feeU N * 2 ^ i = (N - feeU N) * 2 ^ i" by (simp add: algebra_simps)
  then have n: "netU (N * 2 ^ i) = netU N * 2 ^ i"
    by (simp only: netU_def f roundUnits_scale [OF r(3)])
  have "feeU N * 2 ^ i + netU N * 2 ^ i = (feeU N + netU N) * 2 ^ i" by (simp add: algebra_simps)
  then have "sumU (N * 2 ^ i) = sumU N * 2 ^ i"
    by (simp only: sumU_def f n roundUnits_scale [OF r(4)])
  then show ?thesis
    by (simp only: core_sum [OF assms])
qed

lemma sumU_positive:
  assumes rep: "roundUnits N = N" and big: "2 ^ 61 \<le> N"
  shows "sumU N = N"
proof -
  have "2 ^ 52 \<le> \<bar>N\<bar>" using big by simp
  then obtain j where j: "2 ^ (52 + j) \<le> \<bar>N\<bar>" "\<bar>N\<bar> < 2 ^ (53 + j)"
    using binade_exists by blast
  have j9: "9 \<le> j"
  proof (rule ccontr)
    assume "\<not> 9 \<le> j"
    then have "53 + j \<le> 61" by simp
    then have "(2::real) ^ (53 + j) \<le> 2 ^ 61"
      by (intro power_increasing) simp_all
    then show False using j(2) big by linarith
  qed
  define i where "i = j - 9"
  have ji: "j = 9 + i" using j9 by (simp add: i_def)
  have g: "gridU N = 2 ^ j" using j by (rule grid_normal)
  define K where "K = roundHalfEven (N / 2 ^ j)"
  have NK: "N = of_int K * 2 ^ j"
    using rep by (simp add: roundUnits_def g K_def)
  have pos: "(0::real) < 2 ^ j" by simp
  have "2 ^ 52 * 2 ^ j \<le> real_of_int K * 2 ^ j"
    using j(1) big NK by (simp add: power_add)
  then have k1: "2 ^ 52 \<le> real_of_int K"
    using pos by (simp only: mult_le_cancel_right_pos)
  have "real_of_int K * 2 ^ j < 2 ^ 53 * 2 ^ j"
    using j(2) big NK by (simp add: power_add)
  then have k2: "real_of_int K < 2 ^ 53"
    using pos by (simp only: mult_less_cancel_right_pos)
  have K: "2 ^ 52 \<le> K" "K < 2 ^ 53"
    using k1 k2 by simp_all
  have "N = 512 * real_of_int K * 2 ^ i"
    using NK by (simp add: ji power_add)
  then show ?thesis
    using core_scale [OF K refl, of i] by simp
qed

lemma feeU_minus: "feeU (- N) = - feeU N"
  by (simp add: feeU_def roundUnits_minus)

lemma netU_minus: "netU (- N) = - netU N"
  using roundUnits_minus [of "N - feeU N"] by (simp add: netU_def feeU_minus)

lemma sumU_minus: "sumU (- N) = - sumU N"
  using roundUnits_minus [of "feeU N + netU N"] by (simp add: sumU_def feeU_minus netU_minus)

lemma sumU_exact:
  assumes "roundUnits N = N" "2 ^ 61 \<le> \<bar>N\<bar>"
  shows "sumU N = N"
proof (cases "0 \<le> N")
  case True
  then show ?thesis using assms by (intro sumU_positive) simp_all
next
  case False
  then have "sumU (- N) = - N"
    using assms by (intro sumU_positive) (simp_all add: roundUnits_minus)
  then show ?thesis by (simp add: sumU_minus)
qed

lemma doubleScale_pos: "0 < doubleScale"
  by (simp add: doubleScale_def)

lemma fee64_units: "calculatePlatformFee64 a = feeU (a * doubleScale) / doubleScale"
proof -
  have p: "feePercentage PLATFORM_CONFIG = 1/2"
    by (simp add: PLATFORM_CONFIG_def)
  have "a * (1/2) * doubleScale = a * doubleScale * (1/2)" by simp
  moreover have "roundUnits (a * doubleScale * (1/2)) / doubleScale / 100 * doubleScale
      = roundUnits (a * doubleScale * (1/2)) / 100"
    using doubleScale_pos by simp
  ultimately show ?thesis
    by (simp only: calculatePlatformFee64_def p roundDouble_def feeU_def)
qed

lemma net64_units: "calculateNetAmount64 a = netU (a * doubleScale) / doubleScale"
proof -
  have "(a - feeU (a * doubleScale) / doubleScale) * doubleScale
      = a * doubleScale - feeU (a * doubleScale)"
    using doubleScale_pos by (simp add: field_simps)
  then show ?thesis
    by (simp only: calculateNetAmount64_def Let_def fee64_units roundDouble_def netU_def)
qed

lemma sum64_units:
  "roundDouble (calculatePlatformFee64 a + calculateNetAmount64 a)
     = sumU (a * doubleScale) / doubleScale"
proof -
  have "(feeU (a * doubleScale) / doubleScale + netU (a * doubleScale) / doubleScale)
        * doubleScale = feeU (a * doubleScale) + netU (a * doubleScale)"
    using doubleScale_pos by (simp add: field_simps)
  then show ?thesis
    by (simp only: fee64_units net64_units roundDouble_def sumU_def)
qed

lemma roundUnits_zero: "roundUnits 0 = 0"
  using rhe_int [of 0] by (simp add: roundUnits_def)

lemma sumU_zero: "sumU 0 = 0"
  by (simp add: sumU_def netU_def feeU_def roundUnits_zero)

text \<open>
  Claim C10, amended. In double arithmetic, for every finite amount that is zero or of
  magnitude at least \<open>2\<^sup>-\<^sup>1\<^sup>0\<^sup>1\<^sup>3\<close>, the platform fee and the net amount add up to
  the amount exactly.
\<close>

theorem platformFee_plus_netAmount_double:
  assumes "isDouble a" and "a = 0 \<or> 1 / 2 ^ 1013 \<le> \<bar>a\<bar>"
  shows "roundDouble (calculatePlatformFee64 a + calculateNetAmount64 a) = a"
proof (cases "a = 0")
  case True
  then show ?thesis
    by (simp add: sum64_units sumU_zero)
next
  case False
  with assms(2) have big: "1 / 2 ^ 1013 \<le> \<bar>a\<bar>" by simp
  define N where "N = a * doubleScale"
  have rep: "roundUnits N = N"
    using assms(1) doubleScale_pos by (simp add: isDouble_def roundDouble_def N_def field_simps)
  have "doubleScale = 2 ^ 61 * 2 ^ 1013"
    by (simp add: doubleScale_def)
  then have "\<bar>N\<bar> = \<bar>a\<bar> * 2 ^ 1013 * 2 ^ 61"
    by (simp add: N_def abs_mult)
  moreover have "1 \<le> \<bar>a\<bar> * 2 ^ 1013"
    using big by (simp add: field_simps)
  ultimately have "2 ^ 61 \<le> \<bar>N\<bar>"
    by simp
  from sumU_exact [OF rep this] show ?thesis
    using doubleScale_pos by (simp add: sum64_units N_def)
qed

lemma roundUnits_small_int:
  assumes "\<bar>real_of_int n\<bar> < 2 ^ 53"
  shows "roundUnits (of_int n) = of_int n"
  using assms by (simp add: roundUnits_def grid_small)

lemma roundUnits_near:
  assumes "gridU r = g" "0 < g" "\<bar>r / g - of_int n\<bar> < 1/2"
  shows "roundUnits r = of_int n * g"
  using roundUnits_grid(1) [OF assms(1,2)] rhe_near [OF assms(3)] by simp

lemma roundUnits_even:
  assumes "gridU r = g" "0 < g" "even n" "\<bar>r / g - of_int n\<bar> \<le> 1/2"
  shows "roundUnits r = of_int n * g"
  using roundUnits_grid(1) [OF assms(1,2)] rhe_even [OF assms(3,4)] by simp

lemma tiny_units: "tinyAmount * doubleScale = 11551917309789470"
proof -
  have "doubleScale = 2 * 2 ^ 1073"
    by (simp add: doubleScale_def)
  then show ?thesis
    by (simp add: tinyAmount_def)
qed

lemma tiny_fee: "feeU 11551917309789470 = 57759586548947"
proof -
  have h0: "11551917309789470 * (1/2) = (5775958654894735::real)"
    by simp
  have h1: "roundUnits 5775958654894735 = 5775958654894735"
    using roundUnits_small_int [of 5775958654894735] by simp
  have f0: "roundUnits (5775958654894735 / 100) = of_int 57759586548947 * 1"
    by (rule roundUnits_near) (simp_all add: grid_small)
  have c: "real_of_int 57759586548947 * 1 = 57759586548947"
    by simp
  show ?thesis
    by (simp only: feeU_def h0 h1 f0 c)
qed

lemma tiny_net: "netU 11551917309789470 = 11494157723240524"
proof -
  have "roundUnits 11494157723240523 = of_int 5747078861620262 * 2"
    by (rule roundUnits_even) (simp_all add: grid_2)
  then show ?thesis
    by (simp add: netU_def tiny_fee)
qed

lemma tiny_sum: "sumU 11551917309789470 = 11551917309789472"
proof -
  have "roundUnits 11551917309789471 = of_int 5775958654894736 * 2"
    by (rule roundUnits_even) (simp_all add: grid_2)
  then show ?thesis
    by (simp add: sumU_def tiny_fee tiny_net)
qed

lemma tiny_isDouble: "isDouble tinyAmount"
proof -
  have "roundUnits 11551917309789470 = of_int 5775958654894735 * 2"
    by (rule roundUnits_near) (simp_all add: grid_2)
  then have "roundUnits (tinyAmount * doubleScale) = tinyAmount * doubleScale"
    by (simp add: tiny_units)
  then have "roundDouble tinyAmount = tinyAmount"
    using doubleScale_pos by (simp add: roundDouble_def)
  moreover have "\<bar>tinyAmount\<bar> < 2 ^ 1024"
    by (simp add: tinyAmount_def)
  ultimately show ?thesis
    by (simp add: isDouble_def)
qed

text \<open>
  Claim C10, as stated, fails in double arithmetic for a tiny positive amount: the fee
  is rounded on the coarser subnormal grid, and fee plus net is the next double above
  the amount.
\<close>

theorem platformFee_plus_netAmount_counterexample:
  "isDouble tinyAmount
   \<and> 0 < tinyAmount
   \<and> roundDouble (calculatePlatformFee64 tinyAmount + calculateNetAmount64 tinyAmount)
       = 5775958654894736 / 2 ^ 1073
   \<and> roundDouble (calculatePlatformFee64 tinyAmount + calculateNetAmount64 tinyAmount)
       \<noteq> tinyAmount"
proof -
  define P where "P = (2::real) ^ 1073"
  have P: "0 < P"
    by (simp add: P_def)
  have ds: "doubleScale = 2 * P"
    by (simp add: doubleScale_def P_def)
  have "roundDouble (calculatePlatformFee64 tinyAmount + calculateNetAmount64 tinyAmount)
      = 11551917309789472 / doubleScale"
    by (simp only: sum64_units tiny_units tiny_sum)
  also have "\<dots> = 5775958654894736 / P"
    using P by (simp add: ds)
  finally have v: "roundDouble
      (calculatePlatformFee64 tinyAmount + calculateNetAmount64 tinyAmount)
      = 5775958654894736 / 2 ^ 1073"
    by (simp only: P_def)
  have t: "tinyAmount = 5775958654894735 / P"
    by (simp only: tinyAmount_def P_def)
  have "5775958654894736 / P \<noteq> 5775958654894735 / P"
    using P by simp
  then have n: "(5775958654894736::real) / 2 ^ 1073 \<noteq> tinyAmount"
    by (simp only: t P_def simp_thms)
  have p: "0 < tinyAmount"
    unfolding t using P by simp
  show ?thesis
    using tiny_isDouble p v n by (simp only: simp_thms)
qed

lemma roundDouble_int:
  assumes "\<bar>n\<bar> < 2 ^ 53"
  shows "roundDouble (of_int n) = of_int n"
proof (cases "n = 0")
  case True
  then show ?thesis
    by (simp add: roundDouble_def roundUnits_zero)
next
  case False
  define N where "N = real_of_int n * doubleScale"
  have n1: "1 \<le> \<bar>real_of_int n\<bar>"
    using False by (metis of_int_abs of_int_1_le_iff abs_ge_zero zero_less_abs_iff
        int_one_le_iff_zero_less)
  have n53: "\<bar>real_of_int n\<bar> < 2 ^ 53"
  proof -
    have "real_of_int \<bar>n\<bar> < 2 ^ 53"
      using assms by (simp only: of_int_less_numeral_power_cancel_iff)
    then show ?thesis by simp
  qed
  have absN: "\<bar>N\<bar> = \<bar>real_of_int n\<bar> * doubleScale"
    using doubleScale_pos by (simp add: N_def abs_mult)
  have "1 * doubleScale \<le> \<bar>real_of_int n\<bar> * doubleScale"
    using n1 doubleScale_pos by (intro mult_right_mono) simp_all
  then have lo: "2 ^ 1074 \<le> \<bar>N\<bar>"
    by (simp add: absN doubleScale_def)
  have "\<bar>real_of_int n\<bar> * doubleScale < 2 ^ 53 * doubleScale"
    using n53 doubleScale_pos by (intro mult_strict_right_mono) simp_all
  then have hi: "\<bar>N\<bar> < 2 ^ (53 + 1074)"
    by (simp add: absN doubleScale_def power_add)
  have "(2::real) ^ 52 \<le> 2 ^ 1074"
    by (intro power_increasing) simp_all
  then have "2 ^ 52 \<le> \<bar>N\<bar>"
    using lo by linarith
  then obtain j where j: "2 ^ (52 + j) \<le> \<bar>N\<bar>" "\<bar>N\<bar> < 2 ^ (53 + j)"
    using binade_exists by blast
  have "(2::real) ^ (52 + j) < 2 ^ (53 + 1074)"
    using j(1) hi by linarith
  then have "52 + j < 53 + 1074"
    by (simp only: power_strict_increasing_iff [of 2] one_less_numeral_iff semiring_norm)
  then have jle: "j \<le> 1074" by simp
  have g: "gridU N = 2 ^ j"
    using j by (rule grid_normal)
  have ds: "doubleScale = 2 ^ (1074 - j) * 2 ^ j"
    using jle by (simp add: doubleScale_def flip: power_add)
  have Nj: "N = of_int (n * 2 ^ (1074 - j)) * 2 ^ j"
    by (simp add: N_def ds)
  then have "N / 2 ^ j = of_int (n * 2 ^ (1074 - j))"
    by simp
  then have "roundHalfEven (N / 2 ^ j) = n * 2 ^ (1074 - j)"
    by (simp only: rhe_int)
  then have "roundUnits N = of_int (n * 2 ^ (1074 - j)) * 2 ^ j"
    by (simp add: roundUnits_def g)
  then have "roundUnits N = N"
    by (simp only: Nj [symmetric])
  then show ?thesis
    using doubleScale_pos by (simp add: roundDouble_def N_def)
qed

theorem platformFee_plus_netAmount_double_witness:
  "isDouble 1000
   \<and> calculatePlatformFee64 1000 = 5
   \<and> calculateNetAmount64 1000 = 995
   \<and> roundDouble (calculatePlatformFee64 1000 + calculateNetAmount64 1000) = 1000"
proof -
  have r: "roundDouble 1000 = 1000" "roundDouble 500 = 500" "roundDouble 5 = 5"
      "roundDouble 995 = 995"
    using roundDouble_int [of 1000] roundDouble_int [of 500] roundDouble_int [of 5]
      roundDouble_int [of 995] by simp_all
  have d: "isDouble 1000"
    by (simp add: isDouble_def r)
  have b: "(1000::real) = 0 \<or> 1 / 2 ^ 1013 \<le> \<bar>1000::real\<bar>"
    by simp
  have f: "calculatePlatformFee64 1000 = 5"
    by (simp add: calculatePlatformFee64_def PLATFORM_CONFIG_def r)
  have n: "calculateNetAmount64 1000 = 995"
    by (simp add: calculateNetAmount64_def f r)
  show ?thesis
    using platformFee_plus_netAmount_double [OF d b] d f n by simp
qed

section \<open>Evaluating roundings\<close>

lemma roundDouble_normal:
  fixes x y :: real and m :: int and a b :: nat
  assumes y: "y = x * 2 ^ b / 2 ^ a"
    and lo: "2 ^ 52 \<le> y"
    and hi: "y < 2 ^ 53"
    and e: "b \<le> a + 1074"
    and m: "\<bar>y - of_int m\<bar> < 1/2 \<or> (even m \<and> \<bar>y - of_int m\<bar> \<le> 1/2)"
  shows "roundDouble x = of_int m * 2 ^ a / 2 ^ b"
proof -
  define k where "k = a + 1074 - b"
  have "a + 1074 = k + b"
    using e by (simp add: k_def)
  then have "(2::real) ^ (a + 1074) = 2 ^ (k + b)"
    by (simp only:)
  then have P: "(2::real) ^ a * doubleScale = 2 ^ k * 2 ^ b"
    by (simp only: power_add doubleScale_def)
  have "y * 2 ^ k = x * (2 ^ k * 2 ^ b) / 2 ^ a"
    by (simp add: y)
  also have "\<dots> = x * (2 ^ a * doubleScale) / 2 ^ a"
    by (simp only: P)
  also have "\<dots> = x * doubleScale"
    by simp
  finally have sc: "x * doubleScale = y * 2 ^ k"
    by simp
  have "(0::real) \<le> 2 ^ 52"
    by simp
  then have ay: "\<bar>y\<bar> = y"
    using lo by linarith
  have g: "gridU y = 1"
    using hi by (intro grid_small) (simp add: ay)
  have "roundHalfEven y = m"
    using m rhe_near [of y m] rhe_even [of m y] by blast
  then have "roundUnits y = of_int m"
    by (simp add: roundUnits_def g)
  moreover have "roundUnits (y * 2 ^ k) = roundUnits y * 2 ^ k"
    using lo by (intro roundUnits_scale) (simp add: ay)
  ultimately have r: "roundDouble x = of_int m * 2 ^ k / doubleScale"
    by (simp add: roundDouble_def sc)
  have "(2::real) ^ k / doubleScale = 2 ^ a / 2 ^ b"
    using P doubleScale_pos by (simp add: field_simps)
  then have "of_int m * (2 ^ k / doubleScale) = of_int m * (2 ^ a / 2 ^ b)"
    by (simp only:)
  then show ?thesis
    by (simp add: r)
qed

lemma hardcodedAmount_value: "hardcodedAmount = 3602879701896397 / 2 ^ 55"
  using roundDouble_normal [of "2 ^ 56 / 10" "1 / 10" 56 0 7205759403792794]
  by (simp add: hardcodedAmount_def)

lemma hardcodedAmount_wei:
  "roundDouble (hardcodedAmount * 1000000000000000000) = 100000000000000000"
  using roundDouble_normal
    [of "3602879701896397 * 10 ^ 18 / 2 ^ 59" "3602879701896397 * 10 ^ 18 / 2 ^ 55" 0 4
        6250000000000000]
  by (simp add: hardcodedAmount_value)

section \<open>Basic facts\<close>

lemma submitted_append: "submitted (xs @ ys) = submitted xs @ submitted ys"
  by (induction xs rule: submitted.induct) simp_all

lemma call_account:
  "call p req f w = (res, w') \<Longrightarrow>
     connectedAccount w' = connectedAccount w \<and> localStorage w' = localStorage w"
  by (auto simp: call_def split: option.splits)

lemma call_submitted_other:
  "call p req f w = (res, w') \<Longrightarrow> submitted [req] = [] \<Longrightarrow>
     submitted (log w') = submitted (log w)"
  by (auto simp: call_def submitted_append split: option.splits)

lemma switchOrAddChain_account:
  "switchOrAddChain eth w = (res, w') \<Longrightarrow>
     connectedAccount w' = connectedAccount w \<and> localStorage w' = localStorage w"
  unfolding switchOrAddChain_def
  by (auto split: prod.splits sum.splits if_splits dest!: call_account)

lemma switchOrAddChain_submitted:
  "switchOrAddChain eth w = (res, w') \<Longrightarrow> submitted (log w') = submitted (log w)"
  unfolding switchOrAddChain_def
  by (auto split: prod.splits sum.splits if_splits dest!: call_submitted_other)

lemma ensureMonadNetwork_account:
  "ensureMonadNetwork h w = (res, w') \<Longrightarrow>
     connectedAccount w' = connectedAccount w \<and> localStorage w' = localStorage w"
  unfolding ensureMonadNetwork_def
  by (auto split: sum.splits if_splits dest!: switchOrAddChain_account)

lemma ensureMonadNetwork_submitted:
  "ensureMonadNetwork h w = (res, w') \<Longrightarrow> submitted (log w') = submitted (log w)"
  unfolding ensureMonadNetwork_def
  by (auto split: sum.splits if_splits dest!: switchOrAddChain_submitted)

lemma toString16_small: "n < 16 \<Longrightarrow> toString16 n = [hexDigitChar n]"
  by (simp add: toString16.simps)

lemma toString16_large:
  "16 \<le> n \<Longrightarrow> toString16 n = toString16 (n div 16) @ [hexDigitChar (n mod 16)]"
  by (simp add: toString16.simps)

lemma amountWei_value: "amountWei = ''0x16345785d8a0000''"
  by (simp add: amountWei_def hardcodedAmount_wei toString16_small toString16_large
      hexDigitChar_def)

lemma bulkFailure_sel [simp]:
  "success (bulkFailure e) = False"
  "error (bulkFailure e) = Some (errorText e)"
  "txHash (bulkFailure e) = None"
  "failedTransactions (bulkFailure e) = None"
  "totalPlatformFee (bulkFailure e) = None"
  "totalNetAmount (bulkFailure e) = None"
  by (simp_all add: bulkFailure_def)

lemma getProvider_walletHost [simp]:
  "getProvider (walletHost r) = Inr \<lparr>ident = 0, isMetaMask = True, request = Some r\<rparr>"
  by (simp add: getProvider_def walletHost_def)

lemma isWalletInstalled_walletHost [simp]: "isWalletInstalled (walletHost r)"
  by (simp add: isWalletInstalled_def walletHost_def)

section \<open>Bulk transfers: validation before submission\<close>

lemma validateRecipients_amount:
  "\<exists>r \<in> set rs. amount r \<le> 0 \<Longrightarrow> validateRecipients rs \<noteq> None"
  by (induction rs) auto

text \<open>
  Claim C5. When some recipient of the list has an amount that is zero or negative,
  sendBulkPayment returns a failure record (success false, an error message), and the
  transfers among the requests issued are the ones that were there before the call: no
  transfer is submitted for any recipient.
\<close>

theorem sendBulk_invalid_amount_fails_batch:
  assumes "\<exists>r \<in> set recipients. amount r \<le> 0"
  shows "\<not> success (fst (sendBulkPayment h recipients fee w))
       \<and> error (fst (sendBulkPayment h recipients fee w)) \<noteq> None
       \<and> submitted (log (snd (sendBulkPayment h recipients fee w))) = submitted (log w)"
proof -
  let ?f = "\<lambda>r. if isPlaceholder (address r) \<or> \<not> isValidAddress (address r)
                 then r\<lparr>address := TEST_ADDRESS\<rparr> else r"
  obtain r where r: "r \<in> set recipients" "amount r \<le> 0"
    using assms by blast
  have "?f r \<in> set (map ?f recipients)"
    using r(1) by (rule imageI [of r "set recipients" ?f, folded set_map])
  moreover have "amount (?f r) \<le> 0"
    using r(2) by simp
  ultimately have "\<exists>r \<in> set (map ?f recipients). amount r \<le> 0"
    by blast
  then have v: "validateRecipients (map ?f recipients) \<noteq> None"
    by (rule validateRecipients_amount)
  obtain res w1 where e: "ensureMonadNetwork h w = (res, w1)"
    by (cases "ensureMonadNetwork h w")
  have s: "submitted (log w1) = submitted (log w)"
    using e by (rule ensureMonadNetwork_submitted)
  show ?thesis
    using v s e by (auto simp: sendBulkPayment_def split: sum.splits)
qed

theorem sendBulk_invalid_amount_fails_batch_witness:
  "(\<exists>r \<in> set [\<lparr>address = address2, amount = 10\<rparr>, \<lparr>address = address3, amount = 0\<rparr>].
      amount r \<le> 0)
   \<and> \<not> success (fst (sendBulkPayment (walletHost okRpc)
         [\<lparr>address = address2, amount = 10\<rparr>, \<lparr>address = address3, amount = 0\<rparr>]
         True connectedWorld))
   \<and> submitted (log (snd (sendBulkPayment (walletHost okRpc)
         [\<lparr>address = address2, amount = 10\<rparr>, \<lparr>address = address3, amount = 0\<rparr>]
         True connectedWorld))) = []"
  using sendBulk_invalid_amount_fails_batch
    [of "[\<lparr>address = address2, amount = 10\<rparr>, \<lparr>address = address3, amount = 0\<rparr>]"
        "walletHost okRpc" True connectedWorld]
  by (simp add: connectedWorld_def)

section \<open>Bulk transfers: sequential submission and failure isolation\<close>

lemma weiDigits:
  "toString16 (nat \<lfloor>roundDouble (hardcodedAmount * 10 ^ 18)\<rfloor>) = ''16345785d8a0000''"
  using amountWei_value by (simp add: amountWei_def)

lemma bulkLoop_Cons:
  assumes "request eth = Some r"
  shows "bulkLoop eth (x # rs) (lastTx, net, failed) w =
     (let tx = fixedTransfer (connectedAccount w) (address x);
          w' = w\<lparr>log := log w @ [Eth_sendTransaction tx]\<rparr>
      in case on_sendTransaction r (log w) tx of
           Inr txh \<Rightarrow> bulkLoop eth rs (txh, roundDouble (net + hardcodedAmount), failed) w'
         | Inl e \<Rightarrow>
             bulkLoop eth rs (lastTx, roundDouble (net + hardcodedAmount), failed + 1) w')"
  unfolding bulkLoop.simps weiDigits Let_def
  using assms by (simp add: call_def fixedTransfer_def split: sum.splits)

lemma bulkLoop_run:
  assumes "request eth = Some r"
  shows "bulkLoop eth rs (lastTx, net, failed) w =
     (let txs = map (\<lambda>x. fixedTransfer (connectedAccount w) (address x)) rs;
          replies = submissionReplies r (log w) txs
      in ((if hashesOf replies = [] then lastTx else last (hashesOf replies),
           foldl (\<lambda>total x. roundDouble (total + hardcodedAmount)) net rs,
           failed + failureCount replies),
          w\<lparr>log := log w @ map Eth_sendTransaction txs\<rparr>))"
proof (induction rs arbitrary: lastTx net failed w)
  case Nil
  then show ?case by simp
next
  case (Cons x rs)
  let ?tx = "fixedTransfer (connectedAccount w) (address x)"
  let ?w' = "w\<lparr>log := log w @ [Eth_sendTransaction ?tx]\<rparr>"
  show ?case
  proof (cases "on_sendTransaction r (log w) ?tx")
    case (Inl e)
    then show ?thesis
      using Cons.IH [of lastTx "roundDouble (net + hardcodedAmount)" "failed + 1" ?w']
      by (simp add: bulkLoop_Cons [OF assms] Let_def algebra_simps del: bulkLoop.simps)
  next
    case (Inr txh)
    then show ?thesis
      using Cons.IH [of txh "roundDouble (net + hardcodedAmount)" failed ?w']
      by (simp add: bulkLoop_Cons [OF assms] Let_def algebra_simps del: bulkLoop.simps)
  qed
qed

lemma isValidAddress_TEST_ADDRESS: "isValidAddress TEST_ADDRESS"
  by (simp add: isValidAddress_def TEST_ADDRESS_def isHexDigit_def)

lemma isValidAddress_substituteAddress: "isValidAddress (substituteAddress a)"
  by (simp add: substituteAddress_def isValidAddress_TEST_ADDRESS)

lemma substituted_recipient:
  "(if isPlaceholder (address x) \<or> \<not> isValidAddress (address x)
    then x\<lparr>address := TEST_ADDRESS\<rparr> else x) = x\<lparr>address := substituteAddress (address x)\<rparr>"
  by (simp add: substituteAddress_def)

lemma validateRecipients_ok:
  "\<forall>x \<in> set rs. 0 < amount x \<Longrightarrow>
     validateRecipients (map (\<lambda>x. x\<lparr>address := substituteAddress (address x)\<rparr>) rs) = None"
  by (induction rs) (simp_all add: isValidAddress_substituteAddress)

lemma switchOrAddChain_ok_request:
  "switchOrAddChain eth w = (Inr u, w') \<Longrightarrow> request eth \<noteq> None"
  by (cases "request eth") (auto simp: switchOrAddChain_def call_def TypeError_def readCode_def)

lemma ensureMonadNetwork_ok_provider:
  assumes "isWalletInstalled h" "ensureMonadNetwork h w = (Inr u, w1)"
  shows "\<exists>eth r. getProvider h = Inr eth \<and> request eth = Some r"
  using assms
  by (auto simp: ensureMonadNetwork_def split: sum.splits dest!: switchOrAddChain_ok_request)

lemma ensure_walletHost:
  "on_switchEthereumChain r (log w) ''0x279F'' = Inr () \<Longrightarrow>
   ensureMonadNetwork (walletHost r) w =
     (Inr (), w\<lparr>log := log w @ [Wallet_switchEthereumChain ''0x279F'']\<rparr>)"
  by (simp add: ensureMonadNetwork_def switchOrAddChain_def call_def MONAD_CONFIG_def)

lemma subst_examples:
  "substituteAddress address2 = address2"
  "substituteAddress address3 = address3"
  "substituteAddress ''somebody'' = TEST_ADDRESS"
  by (simp_all add: substituteAddress_def isPlaceholder_def isValidAddress_def isHexDigit_def
      address2_def address3_def)

text \<open>
  Claim C1, as stated, fails in a browser without an injected wallet: the module state
  still holds an account (restored from storage), the network check returns without a
  request, every amount is positive, and yet sendBulkPayment returns a failure record
  with no transfer submitted, no hash and no failure count.
\<close>

theorem sendBulk_without_wallet_counterexample:
  "moduleLoad noWalletHost (Some account1) = connectedWorld
   \<and> [\<lparr>address = address2, amount = 10\<rparr>] \<noteq> []
   \<and> isWalletConnected connectedWorld
   \<and> \<not> isFalsy (connectedAccount connectedWorld)
   \<and> 0 < amount \<lparr>address = address2, amount = 10\<rparr>
   \<and> ensureMonadNetwork noWalletHost connectedWorld = (Inr (), connectedWorld)
   \<and> sendBulkPayment noWalletHost [\<lparr>address = address2, amount = 10\<rparr>] False connectedWorld
       = (\<lparr>success = False, txHash = None,
           error = Some ''No EVM-compatible wallet found. Please install MetaMask or another Web3 wallet that supports Ethereum RPC.'',
           totalPlatformFee = None, totalNetAmount = None, failedTransactions = None\<rparr>,
          connectedWorld)"
  by (simp add: ensureMonadNetwork_def isWalletInstalled_def noWalletHost_def moduleLoad_def
      sendBulkPayment_def isFalsy_def connectedWorld_def account1_def getProvider_def
      bulkFailure_def errorText_def Error_def subst_examples isWalletConnected_def
      isPlaceholder_def isValidAddress_def isHexDigit_def address2_def)

text \<open>
  Claim C1, amended. For a non-empty recipient list, a connected account, amounts that
  are all positive, a host that exposes an EVM wallet object and a network check that
  succeeds: a provider with a request function is resolved; sendBulkPayment issues, after
  the requests of the network check, exactly one transfer request for each recipient, in
  the order of the list, whether or not earlier ones were rejected; the outcome reports
  success iff the number of rejected submissions is below the number of recipients, the
  hash of the last accepted submission (the empty string when none was accepted), the
  number of rejected submissions when it is not zero and no such field otherwise, and no
  error.
\<close>

theorem sendBulk_isolates_failures:
  assumes "recipients \<noteq> []"
    and "\<not> isFalsy (connectedAccount w)"
    and "\<forall>x \<in> set recipients. 0 < amount x"
    and "isWalletInstalled h"
    and "ensureMonadNetwork h w = (Inr (), w1)"
  shows "\<exists>eth r. getProvider h = Inr eth \<and> request eth = Some r \<and>
     (let txs = map (\<lambda>x. fixedTransfer (connectedAccount w) (substituteAddress (address x)))
                  recipients;
          replies = submissionReplies r (log w1) txs;
          out = fst (sendBulkPayment h recipients fee w)
      in log (snd (sendBulkPayment h recipients fee w)) = log w1 @ map Eth_sendTransaction txs
         \<and> success out = (failureCount replies < length recipients)
         \<and> txHash out = Some (if hashesOf replies = [] then [] else last (hashesOf replies))
         \<and> failedTransactions out =
             (if failureCount replies = 0 then None else Some (failureCount replies))
         \<and> error out = None)"
proof -
  obtain eth r where p: "getProvider h = Inr eth" "request eth = Some r"
    using ensureMonadNetwork_ok_provider [OF assms(4,5)] by blast
  have a: "connectedAccount w1 = connectedAccount w"
    using ensureMonadNetwork_account [OF assms(5)] by simp
  have v: "validateRecipients
      (map (\<lambda>x. x\<lparr>address := substituteAddress (address x)\<rparr>) recipients) = None"
    using assms(3) by (rule validateRecipients_ok)
  show ?thesis
    using p a v assms(1,2,5)
    by (simp add: sendBulkPayment_def substituted_recipient bulkLoop_run [OF p(2)] Let_def
        comp_def)
qed

theorem sendBulk_isolates_failures_witness:
  "threeRecipients \<noteq> []
   \<and> \<not> isFalsy (connectedAccount connectedWorld)
   \<and> success (fst (sendBulkPayment (walletHost rejectSecondRpc) threeRecipients False
         connectedWorld))
   \<and> txHash (fst (sendBulkPayment (walletHost rejectSecondRpc) threeRecipients False
         connectedWorld)) = Some (''tx:'' @ TEST_ADDRESS)
   \<and> failedTransactions (fst (sendBulkPayment (walletHost rejectSecondRpc) threeRecipients
         False connectedWorld)) = Some 1
   \<and> log (snd (sendBulkPayment (walletHost rejectSecondRpc) threeRecipients False
         connectedWorld))
       = [Wallet_switchEthereumChain ''0x279F'',
          Eth_sendTransaction (fixedTransfer (Some account1) address2),
          Eth_sendTransaction (fixedTransfer (Some account1) address3),
          Eth_sendTransaction (fixedTransfer (Some account1) TEST_ADDRESS)]"
proof -
  have e: "ensureMonadNetwork (walletHost rejectSecondRpc) connectedWorld =
      (Inr (), connectedWorld\<lparr>log := log connectedWorld
          @ [Wallet_switchEthereumChain ''0x279F'']\<rparr>)"
    by (rule ensure_walletHost) (simp add: rejectSecondRpc_def okRpc_def)
  have n: "threeRecipients \<noteq> []"
    by (simp add: threeRecipients_def)
  have c: "\<not> isFalsy (connectedAccount connectedWorld)"
    by (simp add: isFalsy_def connectedWorld_def account1_def)
  have p: "\<forall>x \<in> set threeRecipients. 0 < amount x"
    by (simp add: threeRecipients_def)
  show ?thesis
    using sendBulk_isolates_failures [OF n c p isWalletInstalled_walletHost e, of False] n c
    by (simp add: threeRecipients_def subst_examples rejectSecondRpc_def okRpc_def
        connectedWorld_def userRejected_def Let_def fixedTransfer_def)
qed

section \<open>Single transfers\<close>

lemma paymentFailure_sel [simp]:
  "success (paymentFailure e) = False"
  "error (paymentFailure e) = Some (errorText e)"
  "txHash (paymentFailure e) = None"
  by (simp_all add: paymentFailure_def)

lemma substituteAddress_eq:
  "substituteAddress a = (if isValidAddress a \<and> \<not> isPlaceholder a then a else TEST_ADDRESS)"
  by (simp add: substituteAddress_def)

text \<open>
  Claim C3, amended. For a positive amount, a connected account, a host that exposes an
  EVM wallet object and a network check that succeeds, sendPayment resolves a provider
  and issues exactly one transfer request after the requests of the network check. The
  transfer carries the fixed value (0.1 MON in wei, whatever the amount argument is) and
  the fixed gas limit; it is addressed to the given recipient when that address has the
  valid shape and is not a placeholder (zeros followed by one hexadecimal digit), and to
  the fixed test address otherwise. The call fails only when the provider rejects the
  submission.
\<close>

theorem sendPayment_submits_fixed_transfer:
  assumes "0 < amt"
    and "\<not> isFalsy (connectedAccount w)"
    and "isWalletInstalled h"
    and "ensureMonadNetwork h w = (Inr (), w1)"
  shows "\<exists>eth r. getProvider h = Inr eth \<and> request eth = Some r \<and>
     (let tx = fixedTransfer (connectedAccount w)
                 (if isValidAddress rcpt \<and> \<not> isPlaceholder rcpt then rcpt else TEST_ADDRESS);
          out = fst (sendPayment h rcpt amt fee w)
      in log (snd (sendPayment h rcpt amt fee w)) = log w1 @ [Eth_sendTransaction tx]
         \<and> (case on_sendTransaction r (log w1) tx of
               Inr txh \<Rightarrow> success out \<and> txHash out = Some txh \<and> error out = None
             | Inl e \<Rightarrow> \<not> success out \<and> txHash out = None \<and> error out = Some (errorText e)))"
proof -
  obtain eth r where p: "getProvider h = Inr eth" "request eth = Some r"
    using ensureMonadNetwork_ok_provider [OF assms(3,4)] by blast
  have a: "connectedAccount w1 = connectedAccount w"
    using ensureMonadNetwork_account [OF assms(4)] by simp
  show ?thesis
    using p a assms(1,2,4) isValidAddress_substituteAddress [of rcpt] amountWei_value
    by (simp add: sendPayment_def call_def Let_def fixedTransfer_def substituteAddress_eq
        split: sum.splits)
qed

lemma placeholder1_facts:
  "isValidAddress placeholder1" "isPlaceholder placeholder1" "placeholder1 \<noteq> TEST_ADDRESS"
  by (simp_all add: placeholder1_def isValidAddress_def isPlaceholder_def isHexDigit_def TEST_ADDRESS_def)

lemma connectedWorld_facts:
  "\<not> isFalsy (connectedAccount connectedWorld)" "log connectedWorld = []" "connectedAccount connectedWorld = Some account1"
  by (simp_all add: isFalsy_def connectedWorld_def account1_def)

lemma ensure_okRpc: "ensureMonadNetwork (walletHost okRpc) connectedWorld =
      (Inr (), connectedWorld\<lparr>log := log connectedWorld @ [Wallet_switchEthereumChain ''0x279F'']\<rparr>)"
  by (rule ensure_walletHost) (simp add: okRpc_def)

text \<open>
  Claim C3, as stated, fails for a placeholder address: it passes isValidAddress, and
  the transfer is nevertheless addressed to the test address.
\<close>

theorem sendPayment_placeholder_counterexample:
  "isValidAddress placeholder1
   \<and> (0::real) < 5
   \<and> \<not> isFalsy (connectedAccount connectedWorld)
   \<and> fst (ensureMonadNetwork (walletHost okRpc) connectedWorld) = Inr ()
   \<and> success (fst (sendPayment (walletHost okRpc) placeholder1 5 False connectedWorld))
   \<and> submitted (log (snd (sendPayment (walletHost okRpc) placeholder1 5 False connectedWorld)))
       = [\<lparr>tx_from = Some account1, tx_to = TEST_ADDRESS, tx_value = ''0x16345785d8a0000'', tx_gas = ''0x5208''\<rparr>]
   \<and> TEST_ADDRESS \<noteq> placeholder1"
  using placeholder1_facts connectedWorld_facts ensure_okRpc amountWei_value
  by (simp add: sendPayment_def substituteAddress_def isValidAddress_TEST_ADDRESS call_def okRpc_def)

theorem sendPayment_submits_fixed_transfer_witness:
  "(0::real) < 5
   \<and> \<not> isFalsy (connectedAccount connectedWorld)
   \<and> log (snd (sendPayment (walletHost okRpc) address2 5 True connectedWorld))
       = [Wallet_switchEthereumChain ''0x279F'', Eth_sendTransaction (fixedTransfer (Some account1) address2)]
   \<and> log (snd (sendPayment (walletHost okRpc) ''somebody'' 5 True connectedWorld))
       = [Wallet_switchEthereumChain ''0x279F'', Eth_sendTransaction (fixedTransfer (Some account1) TEST_ADDRESS)]
   \<and> success (fst (sendPayment (walletHost okRpc) ''somebody'' 5 True connectedWorld))"
proof -
  have five: "(0::real) < 5" by simp
  note t = sendPayment_submits_fixed_transfer [OF five connectedWorld_facts(1) isWalletInstalled_walletHost ensure_okRpc]
  have v: "isValidAddress address2 \<and> \<not> isPlaceholder address2" "\<not> isValidAddress ''somebody''"
    by (simp_all add: isValidAddress_def isPlaceholder_def isHexDigit_def address2_def)
  show ?thesis
    using t [of address2 True] t [of "''somebody''" True] v connectedWorld_facts
    by (simp add: Let_def okRpc_def)
qed

section \<open>Network check\<close>

lemma monadChainParams_value: "monadChainParams = sentChainParams"
  by (simp add: monadChainParams_def sentChainParams_def MONAD_CONFIG_def)

lemma chainIdHex_value: "chainIdHex MONAD_CONFIG = ''0x279F''"
  by (simp add: MONAD_CONFIG_def)

lemma getProvider_installed: "getProvider h = Inr eth \<Longrightarrow> isWalletInstalled h"
  by (cases "ethereum h"; cases "hasWindow h")
     (simp_all add: getProvider_def isWalletInstalled_def Let_def split: if_splits)

lemma readCode_simps [simp]:
  "readCode (Thrown isError code message) = Inr code"
  "readCode ThrownUndefined =
     Inl (TypeError (''Cannot read properties of undefined (reading ''
                       @ [CHR 0x27] @ ''code'' @ [CHR 0x27] @ '')''))"
  "readCode ThrownNull =
     Inl (TypeError (''Cannot read properties of null (reading ''
                       @ [CHR 0x27] @ ''code'' @ [CHR 0x27] @ '')''))"
  by (simp_all add: readCode_def)

text \<open>
  Claim C2, amended. When a provider with a request function is resolved and it rejects
  the switch request with a value other than \<^verbatim>\<open>undefined\<close> and \<^verbatim>\<open>null\<close>: if the
  rejection has code 4902, ensureMonadNetwork issues exactly one add-chain request after
  the switch request and no further switch request; the add-chain request carries the
  hexadecimal chain id, the chain name, the native currency, the RPC URL and the first
  block-explorer URL only; the result of ensureMonadNetwork is the answer to that request
  (success when the chain is added, the rejection when it is refused). If the rejection
  of the switch has any other code (or none), ensureMonadNetwork throws it unchanged
  after the switch request alone. When the switch request is rejected with
  \<^verbatim>\<open>undefined\<close> or \<^verbatim>\<open>null\<close>, reading the code of the rejection throws a
  \<^verbatim>\<open>TypeError\<close>, and ensureMonadNetwork throws that \<^verbatim>\<open>TypeError\<close> after the
  switch request alone, not the rejection.
\<close>

theorem ensure_on_switch_failure:
  assumes "getProvider h = Inr eth"
    and "request eth = Some r"
    and "on_switchEthereumChain r (log w) ''0x279F'' = Inl e"
  shows "(\<not> isNullish e \<and> err_code e = Some 4902 \<longrightarrow>
            ensureMonadNetwork h w =
              (on_addEthereumChain r (log w @ [Wallet_switchEthereumChain ''0x279F''])
                 sentChainParams,
               w\<lparr>log := log w @ [Wallet_switchEthereumChain ''0x279F'',
                                   Wallet_addEthereumChain sentChainParams]\<rparr>))
       \<and> (\<not> isNullish e \<and> err_code e \<noteq> Some 4902 \<longrightarrow>
            ensureMonadNetwork h w =
              (Inl e, w\<lparr>log := log w @ [Wallet_switchEthereumChain ''0x279F'']\<rparr>))
       \<and> (e = ThrownUndefined \<longrightarrow>
            ensureMonadNetwork h w =
              (Inl (TypeError (''Cannot read properties of undefined (reading ''
                                 @ [CHR 0x27] @ ''code'' @ [CHR 0x27] @ '')'')),
               w\<lparr>log := log w @ [Wallet_switchEthereumChain ''0x279F'']\<rparr>))
       \<and> (e = ThrownNull \<longrightarrow>
            ensureMonadNetwork h w =
              (Inl (TypeError (''Cannot read properties of null (reading ''
                                 @ [CHR 0x27] @ ''code'' @ [CHR 0x27] @ '')'')),
               w\<lparr>log := log w @ [Wallet_switchEthereumChain ''0x279F'']\<rparr>))"
proof -
  note inst = getProvider_installed [OF assms(1)]
  show ?thesis
  proof (cases e)
    case (Thrown isError code message)
    then show ?thesis
      using assms inst
      by (cases "on_addEthereumChain r (log w @ [Wallet_switchEthereumChain ''0x279F''])
            sentChainParams")
         (simp_all add: ensureMonadNetwork_def switchOrAddChain_def call_def isNullish_def
            monadChainParams_value chainIdHex_value)
  next
    case ThrownUndefined
    then show ?thesis
      using assms inst
      by (simp add: ensureMonadNetwork_def switchOrAddChain_def call_def isNullish_def
          chainIdHex_value)
  next
    case ThrownNull
    then show ?thesis
      using assms inst
      by (simp add: ensureMonadNetwork_def switchOrAddChain_def call_def isNullish_def
          chainIdHex_value)
  qed
qed

theorem ensure_on_switch_failure_witness:
  "ensureMonadNetwork (walletHost unknownChainRpc) freshWorld =
     (Inr (), freshWorld\<lparr>log := [Wallet_switchEthereumChain ''0x279F'',
                                 Wallet_addEthereumChain sentChainParams]\<rparr>)
   \<and> ensureMonadNetwork (walletHost refuseSwitchRpc) freshWorld =
     (Inl userRejected, freshWorld\<lparr>log := [Wallet_switchEthereumChain ''0x279F'']\<rparr>)
   \<and> ensureMonadNetwork (walletHost rejectUndefinedRpc) freshWorld =
     (Inl (TypeError (''Cannot read properties of undefined (reading ''
                        @ [CHR 0x27] @ ''code'' @ [CHR 0x27] @ '')'')),
      freshWorld\<lparr>log := [Wallet_switchEthereumChain ''0x279F'']\<rparr>)"
proof -
  have a: "on_switchEthereumChain unknownChainRpc (log freshWorld) ''0x279F'' = Inl unknownChain"
    by (simp add: unknownChainRpc_def)
  have b: "on_switchEthereumChain refuseSwitchRpc (log freshWorld) ''0x279F'' = Inl userRejected"
    by (simp add: refuseSwitchRpc_def)
  have c: "on_switchEthereumChain rejectUndefinedRpc (log freshWorld) ''0x279F''
      = Inl ThrownUndefined"
    by (simp add: rejectUndefinedRpc_def)
  show ?thesis
    using ensure_on_switch_failure [OF getProvider_walletHost _ a]
      ensure_on_switch_failure [OF getProvider_walletHost _ b]
      ensure_on_switch_failure [OF getProvider_walletHost _ c]
    by (simp add: unknownChain_def userRejected_def unknownChainRpc_def okRpc_def
        freshWorld_def isNullish_def)
qed

text \<open>
  Claim C2, as stated, fails twice: the add-chain request carries one block-explorer
  URL where the configuration lists two, and when the user refuses to add the chain
  ensureMonadNetwork throws that refusal instead of returning.
\<close>

theorem ensure_add_chain_counterexample:
  "log (snd (ensureMonadNetwork (walletHost unknownChainRpc) freshWorld)) =
     [Wallet_switchEthereumChain ''0x279F'',
      Wallet_addEthereumChain
        \<lparr>p_chainId = ''0x279F'',
         p_chainName = ''Monad Testnet'',
         p_nativeCurrency = \<lparr>name = ''Monad'', symbol = ''MON'', decimals = 18\<rparr>,
         p_rpcUrls = [''https://testnet-rpc.monad.xyz''],
         p_blockExplorerUrls = [''https://testnet.monadexplorer.com/'']\<rparr>]
   \<and> explorers MONAD_CONFIG =
       [''https://testnet.monadexplorer.com/'', ''https://monad-testnet.socialscan.io/'']
   \<and> ensureMonadNetwork (walletHost refuseAddRpc) freshWorld =
       (Inl userRejected,
        freshWorld\<lparr>log := [Wallet_switchEthereumChain ''0x279F'',
                             Wallet_addEthereumChain sentChainParams]\<rparr>)"
  by (simp add: ensureMonadNetwork_def switchOrAddChain_def call_def refuseAddRpc_def
      unknownChainRpc_def okRpc_def unknownChain_def freshWorld_def MONAD_CONFIG_def
      monadChainParams_def sentChainParams_def)

section \<open>Provider resolution\<close>

text \<open>
  Claim C8, amended. When \<^verbatim>\<open>window.ethereum\<close> exposes a non-empty array of
  sub-providers, getProvider returns the first entry flagged as MetaMask when there is
  one. Otherwise it looks at the entry at index 0 only: when that entry has a request
  function it is returned; when it has none (or is null), resolution goes on with the
  \<^verbatim>\<open>window.ethereum\<close> object itself, exactly as if there were no sub-providers,
  and later entries with a request function are not considered.
\<close>

theorem getProvider_subproviders:
  assumes "hasWindow h"
    and "ethereum h = Some eth"
    and "providers eth = Some ps"
    and "ps \<noteq> []"
  shows "getProvider h =
     (let onward = getProvider (h\<lparr>ethereum := Some (eth\<lparr>providers := None\<rparr>)\<rparr>) in
      case find flaggedMetaMask ps of
        Some (Some preferred) \<Rightarrow> Inr preferred
      | _ \<Rightarrow>
          (case hd ps of
             Some first \<Rightarrow> (if request first \<noteq> None then Inr first else onward)
           | None \<Rightarrow> onward))"
proof -
  have f: "(\<lambda>p. case p of None \<Rightarrow> False | Some q \<Rightarrow> isMetaMask q) = flaggedMetaMask"
    by (simp add: flaggedMetaMask_def fun_eq_iff)
  show ?thesis
    using assms
    by (cases "hd ps")
       (auto simp: getProvider_def f Let_def exposesRequest_def
          split: option.splits)
qed

theorem getProvider_subproviders_witness:
  "getProvider (multiWalletHost inertObject [Some otherWallet, Some metaMaskWallet])
     = Inr metaMaskWallet
   \<and> getProvider (multiWalletHost inertObject [Some otherWallet, Some brokenWallet])
     = Inr otherWallet
   \<and> getProvider (multiWalletHost metaMaskWallet [None, Some otherWallet])
     = Inr metaMaskWallet"
proof -
  have t: "getProvider (multiWalletHost outer ps) =
     (let onward = getProvider ((multiWalletHost outer ps)
            \<lparr>ethereum := Some (\<lparr>self = outer, providers = Some ps\<rparr>\<lparr>providers := None\<rparr>)\<rparr>) in
      case find flaggedMetaMask ps of
        Some (Some preferred) \<Rightarrow> Inr preferred
      | _ \<Rightarrow>
          (case hd ps of
             Some first \<Rightarrow> (if request first \<noteq> None then Inr first else onward)
           | None \<Rightarrow> onward))"
    if "ps \<noteq> []" for outer ps
    using getProvider_subproviders [of "multiWalletHost outer ps" "\<lparr>self = outer, providers = Some ps\<rparr>" ps] that
    by (simp add: multiWalletHost_def)
  show ?thesis
    by (simp add: t flaggedMetaMask_def otherWallet_def metaMaskWallet_def
        brokenWallet_def inertObject_def)
       (simp add: getProvider_def multiWalletHost_def)
qed

text \<open>
  Claim C8, as stated, fails when no entry is flagged and the entry at index 0 has no
  request function: a later entry has one, and getProvider throws instead of returning it.
\<close>

theorem getProvider_later_request_counterexample:
  "[Some brokenWallet, Some otherWallet] \<noteq> []
   \<and> find flaggedMetaMask [Some brokenWallet, Some otherWallet] = None
   \<and> find exposesRequest [Some brokenWallet, Some otherWallet] = Some (Some otherWallet)
   \<and> getProvider (multiWalletHost inertObject [Some brokenWallet, Some otherWallet])
       = Inl (Error ''No usable EVM provider found. Install MetaMask and try again.'')"
  by (simp add: getProvider_def multiWalletHost_def flaggedMetaMask_def exposesRequest_def
      brokenWallet_def otherWallet_def inertObject_def)

section \<open>Transaction details: best-effort summary\<close>



section \<open>Connection session: state after a failure\<close>







lemma reconnectWallet_state:
  "case listedAccount h w of
     None \<Rightarrow> fst (reconnectWallet h w) = None
            \<and> connectedAccount (snd (reconnectWallet h w)) = connectedAccount w
            \<and> localStorage (snd (reconnectWallet h w)) = localStorage w
   | Some a \<Rightarrow> connectedAccount (snd (reconnectWallet h w)) = Some a
            \<and> localStorage (snd (reconnectWallet h w)) = Some a"
proof (cases "getProvider h")
  case (Inl e)
  then show ?thesis
    by (simp add: reconnectWallet_def listedAccount_def)
next
  case (Inr eth)
  note inst = getProvider_installed [OF Inr]
  show ?thesis
  proof (cases "request eth")
    case None
    then show ?thesis
      using Inr inst by (simp add: reconnectWallet_def listedAccount_def call_def)
  next
    case (Some r)
    show ?thesis
    proof (cases "on_accounts r (log w)")
      case (Inl e)
      then show ?thesis
        using Inr inst Some by (simp add: reconnectWallet_def listedAccount_def call_def)
    next
      case ans: (Inr accounts)
      show ?thesis
      proof (cases accounts)
        case None
        then show ?thesis
          using Inr inst Some ans by (simp add: reconnectWallet_def listedAccount_def call_def)
      next
        case some: (Some accs)
        show ?thesis
        proof (cases accs)
          case Nil
          then show ?thesis
            using Inr inst Some ans some
            by (simp add: reconnectWallet_def listedAccount_def call_def)
        next
          case (Cons a others)
          then show ?thesis
            using Inr inst Some ans some
            by (simp add: reconnectWallet_def listedAccount_def call_def Let_def
                split: sum.splits)
        qed
      qed
    qed
  qed
qed

text \<open>
  Claim C7, amended. reconnectWallet never throws: it returns a connection or nothing.
  When no account is listed (no wallet, no provider, the query rejected or answered with
  no account) it returns nothing and leaves the connected and the stored account as they
  were. When the query lists an account, the connected and the stored account are set to
  the first one listed; the result is that address with its balance when the balance
  query succeeds, and nothing when the balance query fails (the accounts stay set).
\<close>

theorem reconnect_outcome:
  "(listedAccount h w = None \<longrightarrow>
      fst (reconnectWallet h w) = None
      \<and> connectedAccount (snd (reconnectWallet h w)) = connectedAccount w
      \<and> localStorage (snd (reconnectWallet h w)) = localStorage w)
   \<and> (\<forall>eth r a. getProvider h = Inr eth \<and> request eth = Some r \<and> listedAccount h w = Some a \<longrightarrow>
        connectedAccount (snd (reconnectWallet h w)) = Some a
        \<and> localStorage (snd (reconnectWallet h w)) = Some a
        \<and> fst (reconnectWallet h w) =
            (case on_getBalance r (log w @ [Eth_accounts]) a ''latest'' of
               Inl e \<Rightarrow> None
             | Inr balanceHex \<Rightarrow>
                 Some \<lparr>conn_address = a, conn_balance = balanceMON balanceHex\<rparr>))"
proof -
  have none: "listedAccount h w = None \<longrightarrow>
      fst (reconnectWallet h w) = None
      \<and> connectedAccount (snd (reconnectWallet h w)) = connectedAccount w
      \<and> localStorage (snd (reconnectWallet h w)) = localStorage w"
    using reconnectWallet_state [of h w] by (cases "listedAccount h w") simp_all
  have some: "connectedAccount (snd (reconnectWallet h w)) = Some a
        \<and> localStorage (snd (reconnectWallet h w)) = Some a
        \<and> fst (reconnectWallet h w) =
            (case on_getBalance r (log w @ [Eth_accounts]) a ''latest'' of
               Inl e \<Rightarrow> None
             | Inr balanceHex \<Rightarrow>
                 Some \<lparr>conn_address = a, conn_balance = balanceMON balanceHex\<rparr>)"
    if a: "getProvider h = Inr eth \<and> request eth = Some r \<and> listedAccount h w = Some a"
    for eth r a
  proof -
    from a obtain others where l: "on_accounts r (log w) = Inr (Some (a # others))"
      by (auto simp: listedAccount_def split: sum.splits option.splits list.splits)
    have "fst (reconnectWallet h w) =
            (case on_getBalance r (log w @ [Eth_accounts]) a ''latest'' of
               Inl e \<Rightarrow> None
             | Inr balanceHex \<Rightarrow>
                 Some \<lparr>conn_address = a, conn_balance = balanceMON balanceHex\<rparr>)"
      using a l getProvider_installed [of h eth]
      by (simp add: reconnectWallet_def call_def Let_def split: sum.splits)
    then show ?thesis
      using a reconnectWallet_state [of h w] by (cases "listedAccount h w") simp_all
  qed
  show ?thesis
    using none some by blast
qed

lemma balance_example: "balanceMON ''0x16345785d8a0000'' = Some (3602879701896397 / 2 ^ 55)"
proof -
  have "roundDouble 100000000000000000 = 100000000000000000"
    using roundDouble_normal [of "10 ^ 17 / 2 ^ 4" "10 ^ 17" 0 4 6250000000000000]
    by simp
  moreover have "roundDouble (1 / 10) = 3602879701896397 / 2 ^ 55"
    using hardcodedAmount_value by (simp add: hardcodedAmount_def)
  ultimately show ?thesis
    by (simp add: balanceMON_def parseInt16_def isWhiteSpace_def isHexDigit_def
        hexDigitValue_def)
qed

theorem reconnect_outcome_witness:
  "reconnectWallet (walletHost noAccountsRpc) freshWorld
     = (None, freshWorld\<lparr>log := [Eth_accounts]\<rparr>)
   \<and> reconnectWallet (walletHost okRpc) freshWorld
     = (Some \<lparr>conn_address = account1, conn_balance = Some (3602879701896397 / 2 ^ 55)\<rparr>,
        \<lparr>connectedAccount = Some account1, localStorage = Some account1,
         log = [Eth_accounts, Eth_getBalance account1 ''latest'']\<rparr>)"
proof -
  have n: "listedAccount (walletHost noAccountsRpc) freshWorld = None"
    by (simp add: listedAccount_def noAccountsRpc_def okRpc_def)
  have l: "listedAccount (walletHost okRpc) freshWorld = Some account1"
    by (simp add: listedAccount_def okRpc_def)
  have lg: "log (snd (reconnectWallet (walletHost noAccountsRpc) freshWorld)) = [Eth_accounts]"
     "log (snd (reconnectWallet (walletHost okRpc) freshWorld))
        = [Eth_accounts, Eth_getBalance account1 ''latest'']"
    by (simp_all add: reconnectWallet_def call_def noAccountsRpc_def okRpc_def freshWorld_def)
  show ?thesis
    using reconnect_outcome [of "walletHost noAccountsRpc" freshWorld]
      reconnect_outcome [of "walletHost okRpc" freshWorld] n l lg
    by (simp add: prod_eq_iff world.equality freshWorld_def okRpc_def balance_example)
qed

text \<open>
  Claim C7, as stated, fails when the balance query fails: reconnectWallet returns
  nothing, and the account is connected and stored all the same.
\<close>

theorem reconnect_balance_failure_counterexample:
  "connectedAccount freshWorld = None
   \<and> localStorage freshWorld = None
   \<and> reconnectWallet (walletHost failBalanceRpc) freshWorld =
       (None,
        \<lparr>connectedAccount = Some account1, localStorage = Some account1,
         log = [Eth_accounts, Eth_getBalance account1 ''latest'']\<rparr>)"
  by (simp add: reconnectWallet_def call_def failBalanceRpc_def okRpc_def freshWorld_def)

section \<open>Bulk transfers: reported totals\<close>





































end
